theory Spec2Isabelle
  imports Complex_Main "HOL-Library.AList" "HOL-Library.Char_ord" "HOL-Library.List_Lexorder"
begin

section \<open>Filter-preset derivation engine (src/lib/preset-utils.ts)\<close>

text \<open>
  The functions of \<^verbatim>\<open>preset-utils.ts\<close> read a JSON-shaped dataset, rank its
  geographies and pick first-level segments. The embedding keeps the source's names.

  \<^item> A field the source probes for presence (\<^verbatim>\<open>!data.data\<close>, \<^verbatim>\<open>?.\<close>, \<^verbatim>\<open>|| []\<close>) is an
    \<open>option\<close>: \<open>None\<close> is an absent (undefined or null) field.
  \<^item> A property read on an absent object (\<^verbatim>\<open>data.dimensions.segments\<close> with no
    \<^verbatim>\<open>dimensions\<close>) raises a TypeError in JavaScript; such functions return
    \<open>error + 'a\<close>, with \<open>Inl TypeError\<close> for the raise.
  \<^item> A number read from the dataset is \<open>NaN\<close> or \<open>Num x\<close>, a finite double of value
    \<open>x\<close>; an infinite number in the dataset is not modelled. The result of an addition or a division is a \<open>double\<close>: finite or an
    infinity, computed exactly and then rounded. The rounding \<open>rnd\<close> is an argument of
    every function that computes (IEEE 754 leaves no choice, but no statement below
    depends on which rounding it is); \<open>ieee_round\<close> is the rounding of binary64, to
    nearest with ties to even, used wherever a statement is about one dataset.
  \<^item> A plain object used as a dictionary is an association list of its own
    properties, in the order \<^verbatim>\<open>Object.keys\<close> enumerates them. A lookup
    \<^verbatim>\<open>hierarchy[segment]\<close> also finds the properties every object inherits from
    \<^verbatim>\<open>Object.prototype\<close> (\<open>object_prototype_names\<close>). A \<^verbatim>\<open>Map\<close> is an association
    list in insertion order, where \<^verbatim>\<open>set\<close> on a present key keeps the key's position
    (\<open>AList.update\<close>).
  \<^item> The elements of an array are well-formed: a record has a \<^verbatim>\<open>geography\<close> string,
    a hierarchy entry is an array of strings. A count \<^verbatim>\<open>topN\<close> is an integer.
  \<^item> \<^verbatim>\<open>console.log/warn/error\<close> have no effect on the result and are left out.
\<close>

subsection \<open>Data model\<close>

datatype error = TypeError

datatype jsnum = NaN | Num real

text \<open>A computed number. Additions and divisions of finite doubles give a finite double
  or an infinity, never \<^verbatim>\<open>NaN\<close>; the two zeros are not told apart (no function here
  can tell them apart: \<^verbatim>\<open>-0 || 0\<close> is \<^verbatim>\<open>0\<close> and \<^verbatim>\<open>0 - (-0)\<close> is \<^verbatim>\<open>0\<close>).\<close>

datatype double = NegInf | Fin real | PosInf

instantiation double :: linorder
begin

definition less_eq_double :: "double \<Rightarrow> double \<Rightarrow> bool" where
  "less_eq_double a b =
     (case a of
        NegInf \<Rightarrow> True
      | Fin x \<Rightarrow> (case b of NegInf \<Rightarrow> False | Fin y \<Rightarrow> x \<le> y | PosInf \<Rightarrow> True)
      | PosInf \<Rightarrow> (case b of PosInf \<Rightarrow> True | _ \<Rightarrow> False))"

definition less_double :: "double \<Rightarrow> double \<Rightarrow> bool" where
  "less_double a b = (a \<le> b \<and> \<not> b \<le> a)"

instance
proof
  fix x y z :: double
  show "(x < y) = (x \<le> y \<and> \<not> y \<le> x)" by (simp add: less_double_def)
  show "x \<le> x" by (cases x) (simp_all add: less_eq_double_def)
  show "x \<le> y \<Longrightarrow> y \<le> z \<Longrightarrow> x \<le> z"
    by (cases x; cases y; cases z) (simp_all add: less_eq_double_def)
  show "x \<le> y \<Longrightarrow> y \<le> x \<Longrightarrow> x = y"
    by (cases x; cases y) (simp_all add: less_eq_double_def)
  show "x \<le> y \<or> y \<le> x"
    by (cases x; cases y) (auto simp: less_eq_double_def)
qed

end

text \<open>The optional \<^verbatim>\<open>cagr\<close> field: the source tests \<^verbatim>\<open>undefined\<close>, \<^verbatim>\<open>null\<close> and
  \<^verbatim>\<open>isNaN\<close> one by one.\<close>

datatype 'a jsfield = Undefined | Null | Val 'a

record DataRecord =
  geography :: string
  time_series :: "(int \<rightharpoonup> jsnum) option"
  cagr :: "jsnum jsfield"

record SegmentDimension =
  items :: "string list option"
  hierarchy :: "(string \<times> string list) list option"

record Geographies =
  all_geographies :: "string list option"

record Dimensions =
  geographies :: "Geographies option"
  segments :: "(string \<times> SegmentDimension) list option"

record ValueData =
  geography_segment_matrix :: "DataRecord list option"

record DataSection =
  value_section :: "ValueData option"

record ComparisonData =
  dimensions :: "Dimensions option"
  data_section :: "DataSection option"

text \<open>\<^verbatim>\<open>Partial<FilterState>\<close>: every field may be missing from the returned object.\<close>

record FilterState =
  viewMode :: "string option"
  fs_geographies :: "string list option"
  fs_segments :: "string list option"
  segmentType :: "string option"
  yearRange :: "(int \<times> int) option"
  dataType :: "string option"

subsection \<open>JavaScript primitives\<close>

text \<open>\<^verbatim>\<open>xs.slice(0, n)\<close>: a negative end counts from the end of the array.\<close>

definition slice0 :: "int \<Rightarrow> 'a list \<Rightarrow> 'a list" where
  "slice0 n xs = (if n < 0 then take (nat (int (length xs) + n)) xs else take (nat n) xs)"

text \<open>\<^verbatim>\<open>a + v\<close> and \<^verbatim>\<open>a / n\<close> for a computed \<open>a\<close>, a finite \<open>v\<close> and a count \<open>n\<close>:
  the exact result, rounded; an infinity stays what it is. The source divides by the
  length of a list that is never empty (\<open>regions_lists_nonempty\<close> below).\<close>

definition dadd :: "(real \<Rightarrow> double) \<Rightarrow> double \<Rightarrow> real \<Rightarrow> double" where
  "dadd rnd a v = (case a of NegInf \<Rightarrow> NegInf | Fin x \<Rightarrow> rnd (x + v) | PosInf \<Rightarrow> PosInf)"

definition ddiv :: "(real \<Rightarrow> double) \<Rightarrow> double \<Rightarrow> nat \<Rightarrow> double" where
  "ddiv rnd a n = (case a of NegInf \<Rightarrow> NegInf | Fin x \<Rightarrow> rnd (x / real n) | PosInf \<Rightarrow> PosInf)"

text \<open>The rounding of IEEE 754 binary64: \<open>binade\<close> finds the exponent \<open>e\<close> with
  \<open>2 ^ e \<le> |x| < 2 ^ (e + 1)\<close>, not below that of the subnormal numbers; the value is
  rounded to a multiple of \<open>2 ^ (e - 52)\<close>, a tie going to the even multiple; a result
  of \<open>2 ^ 1024\<close> or more is an infinity.\<close>

definition round_half_even :: "real \<Rightarrow> int" where
  "round_half_even y =
     (let f = \<lfloor>y\<rfloor> in
      if y - of_int f < 1 / 2 then f
      else if 1 / 2 < y - of_int f then f + 1
      else if even f then f else f + 1)"

fun binade :: "nat \<Rightarrow> real \<Rightarrow> int \<Rightarrow> int" where
  "binade 0 a e = e"
| "binade (Suc n) a e =
     (if 2 \<le> a then binade n (a / 2) (e + 1)
      else if a < 1 \<and> - 1022 < e then binade n (a * 2) (e - 1)
      else e)"

definition ieee_round :: "real \<Rightarrow> double" where
  "ieee_round x =
     (if x = 0 then Fin 0
      else
        let e = binade 2200 \<bar>x\<bar> 0;
            m = real_of_int (round_half_even
                  (if 52 \<le> e then \<bar>x\<bar> / 2 ^ nat (e - 52) else \<bar>x\<bar> * 2 ^ nat (52 - e)));
            y = (if 52 \<le> e then m * 2 ^ nat (e - 52) else m / 2 ^ nat (52 - e))
        in if 2 ^ 1024 \<le> y then (if x < 0 then NegInf else PosInf)
           else Fin (if x < 0 then - y else y))"

text \<open>\<^verbatim>\<open>xs.sort((a, b) => key(b) - key(a))\<close>. For two computed numbers the difference
  \<^verbatim>\<open>key(b) - key(a)\<close> has the sign of the exact comparison (the difference of two
  different doubles does not round to zero), and for two equal infinities it is
  \<^verbatim>\<open>NaN\<close>, which \<^verbatim>\<open>sort\<close> reads as \<^verbatim>\<open>0\<close>; so the comparator is the descending order
  of \<open>double\<close>. \<^verbatim>\<open>Array.prototype.sort\<close> is stable (ECMAScript 2019), and so is
  insertion sort on the key \<open>dneg\<close>, the order reversed.\<close>

definition dneg :: "double \<Rightarrow> double" where
  "dneg a = (case a of NegInf \<Rightarrow> PosInf | Fin x \<Rightarrow> Fin (- x) | PosInf \<Rightarrow> NegInf)"

definition sort_desc :: "('a \<Rightarrow> double) \<Rightarrow> 'a list \<Rightarrow> 'a list" where
  "sort_desc key xs = sort_key (\<lambda>x. dneg (key x)) xs"

text \<open>\<^verbatim>\<open>record.time_series?.[year] || 0\<close>: an absent series, an absent year, \<^verbatim>\<open>NaN\<close>
  and \<^verbatim>\<open>0\<close> all give \<^verbatim>\<open>0\<close>.\<close>

definition year_value :: "DataRecord \<Rightarrow> int \<Rightarrow> real" where
  "year_value r year =
     (case time_series r of
        None \<Rightarrow> 0
      | Some ts \<Rightarrow> (case ts year of
                     None \<Rightarrow> 0
                   | Some NaN \<Rightarrow> 0
                   | Some (Num v) \<Rightarrow> (if v = 0 then 0 else v)))"

subsection \<open>getTopRegionsByMarketValue\<close>

text \<open>The callback of \<^verbatim>\<open>records.forEach\<close>, as a step on the \<^verbatim>\<open>Map\<close>
  \<^verbatim>\<open>geographyTotals\<close>.\<close>

definition totals_step ::
  "(real \<Rightarrow> double) \<Rightarrow> int \<Rightarrow> (string \<times> double) list \<Rightarrow> DataRecord \<Rightarrow> (string \<times> double) list" where
  "totals_step rnd year geographyTotals r =
     (if geography r = ''Global'' then geographyTotals
      else
        let currentTotal = (case map_of geographyTotals (geography r) of
                              None \<Rightarrow> Fin 0
                            | Some t \<Rightarrow> (if t = Fin 0 then Fin 0 else t))
        in AList.update (geography r) (dadd rnd currentTotal (year_value r year)) geographyTotals)"

definition getTopRegionsByMarketValue ::
  "(real \<Rightarrow> double) \<Rightarrow> ComparisonData option \<Rightarrow> int \<Rightarrow> int \<Rightarrow> string list" where
  "getTopRegionsByMarketValue rnd data year topN =
     (case data of
        None \<Rightarrow> []
      | Some d \<Rightarrow>
        (case data_section d of
           None \<Rightarrow> []
         | Some ds \<Rightarrow>
           (case value_section ds of
              None \<Rightarrow> []
            | Some v \<Rightarrow>
              (case geography_segment_matrix v of
                 None \<Rightarrow> []
               | Some records \<Rightarrow>
                   if records = [] then []
                   else map fst (slice0 topN (sort_desc snd
                          (foldl (totals_step rnd year) [] records)))))))"

subsection \<open>getFirstLevelSegments and getFirstSegmentType\<close>

text \<open>\<^verbatim>\<open>Object.keys(hierarchy).forEach(parent => ...)\<close>, pushing onto
  \<^verbatim>\<open>firstLevelSegments\<close>. The test \<^verbatim>\<open>&&\<close> reads \<^verbatim>\<open>hierarchy[parent].length\<close>
  only when the parent is no child; the read raises when the entry is absent.\<close>

fun parents_forEach ::
  "(string \<times> string list) list \<Rightarrow> string list \<Rightarrow> string list \<Rightarrow> string list \<Rightarrow> error + string list" where
  "parents_forEach h allChildren [] firstLevelSegments = Inr firstLevelSegments"
| "parents_forEach h allChildren (parent # ks) firstLevelSegments =
     (if parent \<notin> set allChildren then
        (case map_of h parent of
           None \<Rightarrow> Inl TypeError
         | Some children \<Rightarrow>
             parents_forEach h allChildren ks
               (if length children > 0 then firstLevelSegments @ [parent] else firstLevelSegments))
      else parents_forEach h allChildren ks firstLevelSegments)"

text \<open>The properties a plain object inherits from \<^verbatim>\<open>Object.prototype\<close> (ECMAScript
  2023, 20.1.3 and B.2.2); each is a function or, for \<^verbatim>\<open>__proto__\<close>, the prototype
  object, so it is truthy.\<close>

definition object_prototype_names :: "string list" where
  "object_prototype_names =
     [''constructor'', ''hasOwnProperty'', ''isPrototypeOf'', ''propertyIsEnumerable'',
      ''toLocaleString'', ''toString'', ''valueOf'', ''__proto__'',
      ''__defineGetter__'', ''__defineSetter__'', ''__lookupGetter__'', ''__lookupSetter__'']"

text \<open>\<^verbatim>\<open>hierarchy[segment]\<close> is truthy: an own property (an array, even an empty one,
  is truthy) or an inherited one.\<close>

definition hierarchy_property :: "(string \<times> string list) list \<Rightarrow> string \<Rightarrow> bool" where
  "hierarchy_property h segment =
     (map_of h segment \<noteq> None \<or> segment \<in> set object_prototype_names)"

text \<open>\<^verbatim>\<open>allSegments.forEach(segment => ...)\<close>, with the test
  \<^verbatim>\<open>!allChildren.has(segment) && !hierarchy[segment]\<close>. (The other lookups by name
  are not changed by inherited properties: \<^verbatim>\<open>hierarchy[parent]\<close> reads an own key, and
  \<^verbatim>\<open>segments[segmentType]\<close> at an inherited name gives an object with neither
  \<^verbatim>\<open>hierarchy\<close> nor \<^verbatim>\<open>items\<close>, for which the function returns the empty list, as it
  does for a name that is not found.)\<close>

definition standalone_forEach ::
  "(string \<times> string list) list \<Rightarrow> string list \<Rightarrow> string list \<Rightarrow> string list \<Rightarrow> string list" where
  "standalone_forEach h allChildren allSegments firstLevelSegments =
     firstLevelSegments @
     filter (\<lambda>segment. segment \<notin> set allChildren \<and> \<not> hierarchy_property h segment) allSegments"

definition getFirstLevelSegments :: "ComparisonData option \<Rightarrow> string \<Rightarrow> error + string list" where
  "getFirstLevelSegments data segmentType' =
     (case data of
        None \<Rightarrow> Inr []
      | Some d \<Rightarrow>
        (case dimensions d of
           None \<Rightarrow> Inl TypeError
         | Some dm \<Rightarrow>
           (case segments dm of
              None \<Rightarrow> Inl TypeError
            | Some sg \<Rightarrow>
              (case map_of sg segmentType' of
                 None \<Rightarrow> Inr []
               | Some segmentDimension \<Rightarrow>
                   let h = (case hierarchy segmentDimension of None \<Rightarrow> [] | Some h' \<Rightarrow> h');
                       allSegments = (case items segmentDimension of None \<Rightarrow> [] | Some i \<Rightarrow> i);
                       allChildren = concat (map snd h)
                   in (case parents_forEach h allChildren (map fst h) [] of
                         Inl e \<Rightarrow> Inl e
                       | Inr firstLevelSegments \<Rightarrow>
                           Inr (sort (standalone_forEach h allChildren allSegments
                                        firstLevelSegments)))))))"

definition getFirstSegmentType :: "ComparisonData option \<Rightarrow> error + string option" where
  "getFirstSegmentType data =
     (case data of
        None \<Rightarrow> Inr None
      | Some d \<Rightarrow>
        (case dimensions d of
           None \<Rightarrow> Inl TypeError
         | Some dm \<Rightarrow>
           (case segments dm of
              None \<Rightarrow> Inr None
            | Some sg \<Rightarrow>
              (case map fst sg of
                 [] \<Rightarrow> Inr None
               | k # _ \<Rightarrow> Inr (Some k)))))"

subsection \<open>getTopRegionsByCAGR and getTopCountriesByCAGR\<close>

text \<open>The source holds the two functions as two separate bodies; each is embedded
  on its own.\<close>

definition regions_step :: "(string \<times> real list) list \<Rightarrow> DataRecord \<Rightarrow> (string \<times> real list) list" where
  "regions_step geographyCAGRs r =
     (if geography r = ''Global'' then geographyCAGRs
      else
        (case cagr r of
           Undefined \<Rightarrow> geographyCAGRs
         | Null \<Rightarrow> geographyCAGRs
         | Val NaN \<Rightarrow> geographyCAGRs
         | Val (Num c) \<Rightarrow>
             let cagrs = (case map_of geographyCAGRs (geography r) of None \<Rightarrow> [] | Some cs \<Rightarrow> cs)
             in AList.update (geography r) (cagrs @ [c]) geographyCAGRs))"

definition regions_avg :: "(real \<Rightarrow> double) \<Rightarrow> string \<times> real list \<Rightarrow> string \<times> double" where
  "regions_avg rnd e =
     (case e of (g, cagrs) \<Rightarrow>
        (g, ddiv rnd (foldl (\<lambda>a b. dadd rnd a b) (Fin 0) cagrs) (length cagrs)))"

definition getTopRegionsByCAGR ::
  "(real \<Rightarrow> double) \<Rightarrow> ComparisonData option \<Rightarrow> int \<Rightarrow> string list" where
  "getTopRegionsByCAGR rnd data topN =
     (case data of
        None \<Rightarrow> []
      | Some d \<Rightarrow>
        (case data_section d of
           None \<Rightarrow> []
         | Some ds \<Rightarrow>
           (case value_section ds of
              None \<Rightarrow> []
            | Some v \<Rightarrow>
              (case geography_segment_matrix v of
                 None \<Rightarrow> []
               | Some records \<Rightarrow>
                   if records = [] then []
                   else
                     let geographyCAGRs = foldl regions_step [] records
                     in if length geographyCAGRs = 0 then []
                        else map fst (slice0 topN (sort_desc snd
                               (map (regions_avg rnd) geographyCAGRs)))))))"

definition countries_step :: "(string \<times> real list) list \<Rightarrow> DataRecord \<Rightarrow> (string \<times> real list) list" where
  "countries_step geographyCAGRs r =
     (if geography r = ''Global'' then geographyCAGRs
      else
        (case cagr r of
           Undefined \<Rightarrow> geographyCAGRs
         | Null \<Rightarrow> geographyCAGRs
         | Val NaN \<Rightarrow> geographyCAGRs
         | Val (Num c) \<Rightarrow>
             let cagrs = (case map_of geographyCAGRs (geography r) of None \<Rightarrow> [] | Some cs \<Rightarrow> cs)
             in AList.update (geography r) (cagrs @ [c]) geographyCAGRs))"

definition countries_avg :: "(real \<Rightarrow> double) \<Rightarrow> string \<times> real list \<Rightarrow> string \<times> double" where
  "countries_avg rnd e =
     (case e of (g, cagrs) \<Rightarrow>
        (g, ddiv rnd (foldl (\<lambda>a b. dadd rnd a b) (Fin 0) cagrs) (length cagrs)))"

definition getTopCountriesByCAGR ::
  "(real \<Rightarrow> double) \<Rightarrow> ComparisonData option \<Rightarrow> int \<Rightarrow> string list" where
  "getTopCountriesByCAGR rnd data topN =
     (case data of
        None \<Rightarrow> []
      | Some d \<Rightarrow>
        (case data_section d of
           None \<Rightarrow> []
         | Some ds \<Rightarrow>
           (case value_section ds of
              None \<Rightarrow> []
            | Some v \<Rightarrow>
              (case geography_segment_matrix v of
                 None \<Rightarrow> []
               | Some records \<Rightarrow>
                   if records = [] then []
                   else
                     let geographyCAGRs = foldl countries_step [] records
                     in if length geographyCAGRs = 0 then []
                        else map fst (slice0 topN (sort_desc snd
                               (map (countries_avg rnd) geographyCAGRs)))))))"

subsection \<open>Preset builders\<close>

text \<open>\<^verbatim>\<open>data.dimensions?.geographies?.all_geographies\<close>: \<open>None\<close> when any link of the
  chain is absent. An array, even an empty one, is truthy.\<close>

definition all_geographies_chain :: "ComparisonData \<Rightarrow> string list option" where
  "all_geographies_chain d =
     (case dimensions d of
        None \<Rightarrow> None
      | Some dm \<Rightarrow> (case geographies dm of None \<Rightarrow> None | Some g \<Rightarrow> all_geographies g))"

text \<open>\<^verbatim>\<open>data.dimensions?.segments?.[firstSegmentType]\<close>.\<close>

definition segment_dimension_chain :: "ComparisonData \<Rightarrow> string \<Rightarrow> SegmentDimension option" where
  "segment_dimension_chain d t =
     (case dimensions d of
        None \<Rightarrow> None
      | Some dm \<Rightarrow> (case segments dm of None \<Rightarrow> None | Some sg \<Rightarrow> map_of sg t))"

text \<open>The part the three builders share word for word: the first segment type, its
  first-level segments (\<^verbatim>\<open>firstSegmentType ? getFirstLevelSegments(...) : []\<close>, where
  the empty string is falsy) and the fallback to the first three raw items.\<close>

definition first_level_or_empty :: "ComparisonData option \<Rightarrow> string option \<Rightarrow> error + string list" where
  "first_level_or_empty data firstSegmentType =
     (case firstSegmentType of
        None \<Rightarrow> Inr []
      | Some t \<Rightarrow> if t = [] then Inr [] else getFirstLevelSegments data t)"

definition segments_fallback :: "ComparisonData \<Rightarrow> string option \<Rightarrow> string list \<Rightarrow> string list" where
  "segments_fallback d firstSegmentType firstLevelSegments =
     (if length firstLevelSegments = 0 then
        (case firstSegmentType of
           None \<Rightarrow> firstLevelSegments
         | Some t \<Rightarrow>
             if t = [] then firstLevelSegments
             else (case segment_dimension_chain d t of
                     None \<Rightarrow> firstLevelSegments
                   | Some sd \<Rightarrow>
                       let allSegments = (case items sd of None \<Rightarrow> [] | Some i \<Rightarrow> i)
                       in slice0 3 allSegments))
      else firstLevelSegments)"

text \<open>\<^verbatim>\<open>firstSegmentType || 'By Drug Class'\<close>.\<close>

definition segment_type_or_default :: "string option \<Rightarrow> string" where
  "segment_type_or_default firstSegmentType =
     (case firstSegmentType of
        None \<Rightarrow> ''By Drug Class''
      | Some t \<Rightarrow> if t = [] then ''By Drug Class'' else t)"

text \<open>The geography fallback, with the preset's own count \<open>n\<close>.\<close>

definition geographies_fallback :: "ComparisonData \<Rightarrow> int \<Rightarrow> string list \<Rightarrow> string list" where
  "geographies_fallback d n topRegions =
     (if length topRegions = 0 then
        (case all_geographies_chain d of
           None \<Rightarrow> topRegions
         | Some ags \<Rightarrow>
             let allGeos = filter (\<lambda>g. g \<noteq> ''Global'') ags
             in slice0 n allGeos)
      else topRegions)"

definition createTopMarketFilters ::
  "(real \<Rightarrow> double) \<Rightarrow> ComparisonData option \<Rightarrow> error + FilterState" where
  "createTopMarketFilters rnd data =
     (case data of
        None \<Rightarrow>
          Inr \<lparr>viewMode = Some ''geography-mode'', fs_geographies = None, fs_segments = None,
               segmentType = None, yearRange = Some (2024, 2028), dataType = Some ''value''\<rparr>
      | Some d \<Rightarrow>
          let topRegions = getTopRegionsByMarketValue rnd data 2024 3
          in (case getFirstSegmentType data of
                Inl e \<Rightarrow> Inl e
              | Inr firstSegmentType \<Rightarrow>
                (case first_level_or_empty data firstSegmentType of
                   Inl e \<Rightarrow> Inl e
                 | Inr firstLevelSegments \<Rightarrow>
                     Inr \<lparr>viewMode = Some ''geography-mode'',
                          fs_geographies = Some (geographies_fallback d 3 topRegions),
                          fs_segments = Some (segments_fallback d firstSegmentType firstLevelSegments),
                          segmentType = Some (segment_type_or_default firstSegmentType),
                          yearRange = Some (2024, 2028),
                          dataType = Some ''value''\<rparr>)))"

definition createGrowthLeadersFilters ::
  "(real \<Rightarrow> double) \<Rightarrow> ComparisonData option \<Rightarrow> error + FilterState" where
  "createGrowthLeadersFilters rnd data =
     (case data of
        None \<Rightarrow>
          Inr \<lparr>viewMode = Some ''geography-mode'', fs_geographies = None, fs_segments = None,
               segmentType = None, yearRange = Some (2024, 2032), dataType = Some ''value''\<rparr>
      | Some d \<Rightarrow>
          let topRegions = getTopRegionsByCAGR rnd data 2
          in (case getFirstSegmentType data of
                Inl e \<Rightarrow> Inl e
              | Inr firstSegmentType \<Rightarrow>
                (case first_level_or_empty data firstSegmentType of
                   Inl e \<Rightarrow> Inl e
                 | Inr firstLevelSegments \<Rightarrow>
                     Inr \<lparr>viewMode = Some ''geography-mode'',
                          fs_geographies = Some (geographies_fallback d 2 topRegions),
                          fs_segments = Some (segments_fallback d firstSegmentType firstLevelSegments),
                          segmentType = Some (segment_type_or_default firstSegmentType),
                          yearRange = Some (2024, 2032),
                          dataType = Some ''value''\<rparr>)))"

definition createEmergingMarketsFilters ::
  "(real \<Rightarrow> double) \<Rightarrow> ComparisonData option \<Rightarrow> error + FilterState" where
  "createEmergingMarketsFilters rnd data =
     (case data of
        None \<Rightarrow>
          Inr \<lparr>viewMode = Some ''geography-mode'', fs_geographies = None, fs_segments = None,
               segmentType = None, yearRange = Some (2024, 2032), dataType = Some ''value''\<rparr>
      | Some d \<Rightarrow>
          let topCountries = getTopCountriesByCAGR rnd data 5
          in (case getFirstSegmentType data of
                Inl e \<Rightarrow> Inl e
              | Inr firstSegmentType \<Rightarrow>
                (case first_level_or_empty data firstSegmentType of
                   Inl e \<Rightarrow> Inl e
                 | Inr firstLevelSegments \<Rightarrow>
                     Inr \<lparr>viewMode = Some ''geography-mode'',
                          fs_geographies = Some (geographies_fallback d 5 topCountries),
                          fs_segments = Some (segments_fallback d firstSegmentType firstLevelSegments),
                          segmentType = Some (segment_type_or_default firstSegmentType),
                          yearRange = Some (2024, 2032),
                          dataType = Some ''value''\<rparr>)))"

subsection \<open>Notions of the specification\<close>

text \<open>The records the ranking loops run over: the matrix when every link of
  \<^verbatim>\<open>data.data.value.geography_segment_matrix\<close> is present, no record otherwise.\<close>

definition matrix_records :: "ComparisonData option \<Rightarrow> DataRecord list" where
  "matrix_records data =
     (case data of None \<Rightarrow> [] | Some d \<Rightarrow>
       (case data_section d of None \<Rightarrow> [] | Some ds \<Rightarrow>
         (case value_section ds of None \<Rightarrow> [] | Some v \<Rightarrow>
           (case geography_segment_matrix v of None \<Rightarrow> [] | Some records \<Rightarrow> records))))"




definition ranked_geographies :: "DataRecord list \<Rightarrow> string set" where
  "ranked_geographies records = {g. g \<noteq> ''Global'' \<and> g \<in> geography ` set records}"

text \<open>A record that has a value for the year.\<close>

definition has_year_record :: "DataRecord list \<Rightarrow> int \<Rightarrow> string \<Rightarrow> bool" where
  "has_year_record records year g =
     list_ex (\<lambda>r. geography r = g \<and>
                   (case time_series r of None \<Rightarrow> False | Some ts \<Rightarrow> ts year \<noteq> None)) records"

text \<open>The valid CAGR observation of a record: present, not \<^verbatim>\<open>null\<close>, not \<^verbatim>\<open>NaN\<close>.\<close>

definition valid_cagr :: "DataRecord \<Rightarrow> real option" where
  "valid_cagr r = (case cagr r of Val (Num c) \<Rightarrow> Some c | _ \<Rightarrow> None)"

definition valid_cagrs :: "DataRecord list \<Rightarrow> string \<Rightarrow> real list" where
  "valid_cagrs records g =
     concat (map (\<lambda>r. case valid_cagr r of None \<Rightarrow> [] | Some c \<Rightarrow> [c])
                 (filter (\<lambda>r. geography r = g) records))"

definition cagr_geographies :: "DataRecord list \<Rightarrow> string set" where
  "cagr_geographies records =
     {g. g \<noteq> ''Global'' \<and> g \<in> geography ` {r \<in> set records. valid_cagr r \<noteq> None}}"

text \<open>The arithmetic mean as a program computes it: the sum from left to right, each
  addition rounded, divided by the count, the quotient rounded.\<close>

definition mean :: "(real \<Rightarrow> double) \<Rightarrow> real list \<Rightarrow> double" where
  "mean rnd xs = ddiv rnd (foldl (dadd rnd) (Fin 0) xs) (length xs)"

text \<open>The hierarchy and the items of a segment dimension, absent ones read as empty
  (\<^verbatim>\<open>|| {}\<close>, \<^verbatim>\<open>|| []\<close>), the all-children set and the first-level segments as the
  specification words them.\<close>

definition hierarchy_children :: "(string \<times> string list) list \<Rightarrow> string set" where
  "hierarchy_children h = \<Union> (set ` snd ` set h)"

definition has_children :: "(string \<times> string list) list \<Rightarrow> string \<Rightarrow> bool" where
  "has_children h k = (case map_of h k of None \<Rightarrow> False | Some children \<Rightarrow> children \<noteq> [])"

definition hierarchy_or_empty :: "SegmentDimension \<Rightarrow> (string \<times> string list) list" where
  "hierarchy_or_empty sd = (case hierarchy sd of None \<Rightarrow> [] | Some h \<Rightarrow> h)"

definition items_or_empty :: "SegmentDimension \<Rightarrow> string list" where
  "items_or_empty sd = (case items sd of None \<Rightarrow> [] | Some i \<Rightarrow> i)"

definition first_level_set :: "(string \<times> string list) list \<Rightarrow> string list \<Rightarrow> string set" where
  "first_level_set h its =
     {k. has_children h k \<and> k \<notin> hierarchy_children h} \<union>
     {s. s \<in> set its \<and> map_of h s = None \<and> s \<notin> hierarchy_children h}"

text \<open>The first-level segments the source computes: an item named like an inherited
  property is taken for a hierarchy key.\<close>

definition first_level_found :: "(string \<times> string list) list \<Rightarrow> string list \<Rightarrow> string set" where
  "first_level_found h its =
     {k. has_children h k \<and> k \<notin> hierarchy_children h} \<union>
     {s. s \<in> set its \<and> \<not> hierarchy_property h s \<and> s \<notin> hierarchy_children h}"

subsection \<open>Example datasets\<close>

text \<open>A dataset with a \<open>Global\<close> roll-up row that dominates every metric, two rows
  for \<open>A\<close> (CAGR 4 and 6, value 5 in 2024), one for \<open>B\<close> (CAGR 9, value 5 in 2024)
  and one for \<open>C\<close> (value 1 in 2024) whose CAGR is \<^verbatim>\<open>null\<close>.\<close>

definition example_segment_dimension :: SegmentDimension where
  "example_segment_dimension =
     \<lparr>items = Some [''X'', ''Y'', ''Z'', ''W''], hierarchy = Some [(''X'', [''Y'', ''Z''])]\<rparr>"

definition example_records :: "DataRecord list" where
  "example_records =
     [\<lparr>geography = ''Global'', time_series = Some [2024 \<mapsto> Num 50], cagr = Val (Num 40)\<rparr>,
      \<lparr>geography = ''A'', time_series = Some [2024 \<mapsto> Num 5], cagr = Val (Num 4)\<rparr>,
      \<lparr>geography = ''C'', time_series = Some [2024 \<mapsto> Num 1], cagr = Null\<rparr>,
      \<lparr>geography = ''B'', time_series = Some [2024 \<mapsto> Num 5], cagr = Val (Num 9)\<rparr>,
      \<lparr>geography = ''A'', time_series = Some [2025 \<mapsto> Num 7], cagr = Val (Num 6)\<rparr>]"

definition example_dimensions :: "string list \<Rightarrow> Dimensions" where
  "example_dimensions ags =
     \<lparr>geographies = Some \<lparr>all_geographies = Some ags\<rparr>,
      segments = Some [(''By Type'', example_segment_dimension)]\<rparr>"

definition example_data :: ComparisonData where
  "example_data =
     \<lparr>dimensions = Some (example_dimensions [''Global'', ''A'', ''B'', ''C'']),
      data_section = Some \<lparr>value_section = Some \<lparr>geography_segment_matrix = Some example_records\<rparr>\<rparr>\<rparr>"

text \<open>No value record at all: the matrix is empty.\<close>

definition fallback_data :: ComparisonData where
  "fallback_data =
     \<lparr>dimensions = Some (example_dimensions [''Global'', ''A'', ''B'', ''C'', ''D'']),
      data_section = Some \<lparr>value_section = Some \<lparr>geography_segment_matrix = Some []\<rparr>\<rparr>\<rparr>"

text \<open>The only listed geography is the roll-up row.\<close>

definition global_only_data :: ComparisonData where
  "global_only_data =
     \<lparr>dimensions = Some (example_dimensions [''Global'']),
      data_section = Some \<lparr>value_section = Some \<lparr>geography_segment_matrix = Some []\<rparr>\<rparr>\<rparr>"

text \<open>Partially malformed shapes: \<^verbatim>\<open>dimensions.segments\<close> absent, and \<^verbatim>\<open>dimensions\<close>
  absent.\<close>

definition no_segments_data :: ComparisonData where
  "no_segments_data =
     \<lparr>dimensions = Some \<lparr>geographies = Some \<lparr>all_geographies = Some [''Global'', ''A'']\<rparr>,
                          segments = None\<rparr>,
      data_section = Some \<lparr>value_section = Some \<lparr>geography_segment_matrix = Some example_records\<rparr>\<rparr>\<rparr>"

definition no_dimensions_data :: ComparisonData where
  "no_dimensions_data =
     \<lparr>dimensions = None,
      data_section = Some \<lparr>value_section = Some \<lparr>geography_segment_matrix = Some example_records\<rparr>\<rparr>\<rparr>"

text \<open>Items named like inherited properties, and no hierarchy.\<close>

definition inherited_names_data :: ComparisonData where
  "inherited_names_data =
     \<lparr>dimensions = Some
        \<lparr>geographies = Some \<lparr>all_geographies = Some [''Global'', ''A'']\<rparr>,
         segments = Some [(''By Type'',
           \<lparr>items = Some [''constructor'', ''W'', ''toString''], hierarchy = Some []\<rparr>)]\<rparr>,
      data_section = None\<rparr>"

text \<open>Values whose exact sums are equal and whose rounded sums are not: the doubles
  nearest to 0.1, 0.2 and 0.3, added as \<open>0.3 + 0.2 + 0.1\<close> for \<open>B\<close> and as
  \<open>0.1 + 0.2 + 0.3\<close> for \<open>A\<close>.\<close>

definition tenth :: real where
  "tenth = 3602879701896397 / 36028797018963968"

definition fifth :: real where
  "fifth = 3602879701896397 / 18014398509481984"

definition three_tenths :: real where
  "three_tenths = 5404319552844595 / 18014398509481984"

definition rounding_records :: "DataRecord list" where
  "rounding_records =
     [\<lparr>geography = ''B'', time_series = Some [2024 \<mapsto> Num three_tenths], cagr = Undefined\<rparr>,
      \<lparr>geography = ''A'', time_series = Some [2024 \<mapsto> Num tenth], cagr = Undefined\<rparr>,
      \<lparr>geography = ''B'', time_series = Some [2024 \<mapsto> Num fifth], cagr = Undefined\<rparr>,
      \<lparr>geography = ''A'', time_series = Some [2024 \<mapsto> Num fifth], cagr = Undefined\<rparr>,
      \<lparr>geography = ''B'', time_series = Some [2024 \<mapsto> Num tenth], cagr = Undefined\<rparr>,
      \<lparr>geography = ''A'', time_series = Some [2024 \<mapsto> Num three_tenths], cagr = Undefined\<rparr>]"

definition rounding_data :: ComparisonData where
  "rounding_data =
     \<lparr>dimensions = Some (example_dimensions [''Global'', ''A'', ''B'']),
      data_section = Some \<lparr>value_section = Some \<lparr>geography_segment_matrix = Some rounding_records\<rparr>\<rparr>\<rparr>"

text \<open>One record, which has a value for 2025 only.\<close>

definition other_year_data :: ComparisonData where
  "other_year_data =
     \<lparr>dimensions = Some (example_dimensions [''Global'', ''A'', ''B'', ''C'', ''D'']),
      data_section = Some \<lparr>value_section = Some \<lparr>geography_segment_matrix =
        Some [\<lparr>geography = ''D'', time_series = Some [2025 \<mapsto> Num 7], cagr = Undefined\<rparr>]\<rparr>\<rparr>\<rparr>"

section \<open>Ranking by aggregated value\<close>

lemma dneg_le: "dneg a \<le> dneg b \<longleftrightarrow> b \<le> a"
  by (cases a; cases b) (simp_all add: dneg_def less_eq_double_def)

lemma dneg_eq: "dneg a = dneg b \<longleftrightarrow> a = b"
  by (cases a; cases b) (simp_all add: dneg_def)


lemma slice0_empty: "slice0 n [] = []"
  by (simp add: slice0_def)

lemma sort_desc_empty: "sort_desc key [] = []"
  by (simp add: sort_desc_def)

lemma getTopRegionsByMarketValue_records:
  "getTopRegionsByMarketValue rnd data year topN =
     map fst (slice0 topN (sort_desc snd (foldl (totals_step rnd year) [] (matrix_records data))))"
  by (simp add: getTopRegionsByMarketValue_def matrix_records_def slice0_empty sort_desc_empty
      split: option.splits)

lemma totals_step_keys:
  "map fst (totals_step rnd year m r) =
     (if geography r = ''Global'' \<or> geography r \<in> set (map fst m) then map fst m
      else map fst m @ [geography r])"
  by (simp add: totals_step_def Let_def update_keys)

lemma totals_keys_set:
  "set (map fst (foldl (totals_step rnd year) [] rs)) = ranked_geographies rs"
proof (induction rs rule: rev_induct)
  case Nil
  show ?case by (simp add: ranked_geographies_def)
next
  case (snoc r rs)
  have "set (map fst (totals_step rnd year (foldl (totals_step rnd year) [] rs) r)) =
        ranked_geographies rs \<union> (if geography r = ''Global'' then {} else {geography r})"
    unfolding totals_step_keys using snoc.IH by auto
  also have "\<dots> = ranked_geographies (rs @ [r])"
    by (auto simp: ranked_geographies_def)
  finally show ?case by simp
qed

lemma totals_keys_distinct: "distinct (map fst (foldl (totals_step rnd year) [] rs))"
proof (induction rs rule: rev_induct)
  case Nil
  show ?case by simp
next
  case (snoc r rs)
  then show ?case by (simp add: totals_step_keys)
qed








lemma slice0_take: "\<exists>k. slice0 n xs = take k xs"
  by (auto simp: slice0_def)

lemma slice0_length: "0 \<le> n \<Longrightarrow> length (slice0 n xs) = min (nat n) (length xs)"
  by (simp add: slice0_def)

lemma slice0_subset: "set (slice0 n xs) \<subseteq> set xs"
  using slice0_take[of n xs] by (auto dest: in_set_takeD)





lemma value_ranking_subset:
  "set (getTopRegionsByMarketValue rnd data year topN) \<subseteq> ranked_geographies (matrix_records data)"
proof -
  have "set (getTopRegionsByMarketValue rnd data year topN)
          \<subseteq> fst ` set (sort_desc snd (foldl (totals_step rnd year) [] (matrix_records data)))"
    unfolding getTopRegionsByMarketValue_records using slice0_subset by fastforce
  also have "\<dots> = set (map fst (foldl (totals_step rnd year) [] (matrix_records data)))"
    by (simp add: sort_desc_def)
  finally show ?thesis by (simp only: totals_keys_set)
qed

lemma value_ranking_length:
  "0 \<le> topN \<Longrightarrow>
     length (getTopRegionsByMarketValue rnd data year topN)
       = min (nat topN) (card (ranked_geographies (matrix_records data)))"
proof -
  assume n: "0 \<le> topN"
  let ?kv = "foldl (totals_step rnd year) [] (matrix_records data)"
  have "card (ranked_geographies (matrix_records data)) = length (map fst ?kv)"
    using distinct_card[OF totals_keys_distinct[of rnd year "matrix_records data"]]
    by (simp only: totals_keys_set)
  then show ?thesis
    using n by (simp add: getTopRegionsByMarketValue_records slice0_length sort_desc_def)
qed

section \<open>Ranking by average CAGR\<close>

lemma countries_step_eq: "countries_step = regions_step"
  by (simp add: fun_eq_iff countries_step_def regions_step_def)

lemma countries_avg_eq: "countries_avg = regions_avg"
  by (simp add: fun_eq_iff countries_avg_def regions_avg_def)

lemma regions_step_valid:
  "regions_step m r =
     (if geography r = ''Global'' then m
      else (case valid_cagr r of
              None \<Rightarrow> m
            | Some c \<Rightarrow> AList.update (geography r)
                         ((case map_of m (geography r) of None \<Rightarrow> [] | Some cs \<Rightarrow> cs) @ [c]) m))"
  by (simp add: regions_step_def valid_cagr_def Let_def split: jsfield.splits jsnum.splits)

lemma getTopRegionsByCAGR_records:
  "getTopRegionsByCAGR rnd data topN =
     map fst (slice0 topN (sort_desc snd (map (regions_avg rnd) (foldl regions_step [] (matrix_records data)))))"
  by (simp add: getTopRegionsByCAGR_def matrix_records_def slice0_empty sort_desc_empty Let_def
      split: option.splits)

lemma getTopCountriesByCAGR_records:
  "getTopCountriesByCAGR rnd data topN =
     map fst (slice0 topN (sort_desc snd (map (regions_avg rnd) (foldl regions_step [] (matrix_records data)))))"
  by (simp add: getTopCountriesByCAGR_def matrix_records_def slice0_empty sort_desc_empty Let_def
      countries_step_eq countries_avg_eq split: option.splits)

lemma regions_step_keys:
  "map fst (regions_step m r) =
     (if geography r = ''Global'' \<or> valid_cagr r = None \<or> geography r \<in> set (map fst m)
      then map fst m else map fst m @ [geography r])"
  by (auto simp: regions_step_valid update_keys split: option.splits)

lemma cagr_geographies_snoc:
  "cagr_geographies (rs @ [r]) =
     cagr_geographies rs \<union>
     (if geography r = ''Global'' \<or> valid_cagr r = None then {} else {geography r})"
  by (auto simp: cagr_geographies_def)

lemma regions_keys_set:
  "set (map fst (foldl regions_step [] rs)) = cagr_geographies rs"
proof (induction rs rule: rev_induct)
  case Nil
  show ?case by (simp add: cagr_geographies_def)
next
  case (snoc r rs)
  have "set (map fst (regions_step (foldl regions_step [] rs) r)) =
        cagr_geographies rs \<union>
        (if geography r = ''Global'' \<or> valid_cagr r = None then {} else {geography r})"
    unfolding regions_step_keys using snoc.IH by auto
  then show ?case by (simp only: cagr_geographies_snoc foldl_append foldl.simps)
qed

lemma regions_keys_distinct: "distinct (map fst (foldl regions_step [] rs))"
proof (induction rs rule: rev_induct)
  case Nil
  show ?case by simp
next
  case (snoc r rs)
  then show ?case by (simp add: regions_step_keys)
qed

lemma valid_cagrs_snoc:
  "valid_cagrs (rs @ [r]) g =
     valid_cagrs rs g @
     (if geography r = g then (case valid_cagr r of None \<Rightarrow> [] | Some c \<Rightarrow> [c]) else [])"
  by (simp add: valid_cagrs_def)

lemma valid_cagrs_unseen: "g \<noteq> ''Global'' \<Longrightarrow> g \<notin> cagr_geographies rs \<Longrightarrow> valid_cagrs rs g = []"
  by (induction rs rule: rev_induct)
     (auto simp: valid_cagrs_snoc cagr_geographies_snoc valid_cagrs_def split: if_splits option.splits)

lemma regions_map_of:
  "map_of (foldl regions_step [] rs) g =
     (if g \<in> cagr_geographies rs then Some (valid_cagrs rs g) else None)"
proof (induction rs rule: rev_induct)
  case Nil
  show ?case by (simp add: cagr_geographies_def)
next
  case (snoc r rs)
  show ?case
  proof (cases "geography r = ''Global'' \<or> valid_cagr r = None")
    case True
    then have "cagr_geographies (rs @ [r]) = cagr_geographies rs"
      by (simp add: cagr_geographies_snoc)
    moreover have "g \<in> cagr_geographies rs \<Longrightarrow> valid_cagrs (rs @ [r]) g = valid_cagrs rs g"
      using True by (auto simp: valid_cagrs_snoc cagr_geographies_def)
    moreover have "regions_step (foldl regions_step [] rs) r = foldl regions_step [] rs"
      using True by (auto simp: regions_step_valid)
    ultimately show ?thesis using snoc.IH by simp
  next
    case False
    then obtain c where c: "valid_cagr r = Some c" and ng: "geography r \<noteq> ''Global''" by auto
    show ?thesis
    proof (cases "geography r = g")
      case same: True
      have "g \<in> cagr_geographies (rs @ [r])"
        using same c ng by (simp add: cagr_geographies_snoc)
      moreover have "g \<notin> cagr_geographies rs \<Longrightarrow> valid_cagrs rs g = []"
        using same ng by (intro valid_cagrs_unseen) auto
      ultimately show ?thesis
        using same c ng snoc.IH
        by (simp add: regions_step_valid update_conv' valid_cagrs_snoc)
    next
      case other: False
      have "g \<in> cagr_geographies (rs @ [r]) \<longleftrightarrow> g \<in> cagr_geographies rs"
        using other by (auto simp: cagr_geographies_snoc)
      then show ?thesis
        using other c ng snoc.IH
        by (simp add: regions_step_valid update_conv' valid_cagrs_snoc)
    qed
  qed
qed

lemma valid_cagrs_empty_iff:
  "valid_cagrs rs g = [] \<longleftrightarrow> (\<forall>r\<in>set rs. geography r = g \<longrightarrow> valid_cagr r = None)"
  by (auto simp: valid_cagrs_def split: option.splits)

lemma cagr_geographies_iff:
  "g \<in> cagr_geographies rs \<longleftrightarrow> g \<noteq> ''Global'' \<and> valid_cagrs rs g \<noteq> []"
  by (auto simp: cagr_geographies_def valid_cagrs_empty_iff)

text \<open>The division of \<open>regions_avg\<close> is never by zero.\<close>

lemma regions_lists_nonempty:
  assumes "p \<in> set (foldl regions_step [] rs)"
  shows "snd p \<noteq> []"
proof -
  have "map_of (foldl regions_step [] rs) (fst p) = Some (snd p)"
    using assms regions_keys_distinct[of rs] by simp
  then have "fst p \<in> cagr_geographies rs" "snd p = valid_cagrs rs (fst p)"
    by (simp_all add: regions_map_of split: if_splits)
  then show ?thesis by (simp add: cagr_geographies_iff)
qed

lemma regions_avg_mean: "regions_avg rnd (g, cs) = (g, mean rnd cs)"
  by (simp add: regions_avg_def mean_def)

lemma regions_avg_fst: "map fst (map (regions_avg rnd) m) = map fst m"
  by (induction m) (auto simp: regions_avg_def split: prod.splits)

lemma cagr_ranking_subset:
  "set (getTopRegionsByCAGR rnd data topN) \<subseteq> cagr_geographies (matrix_records data)"
proof -
  let ?avgs = "map (regions_avg rnd) (foldl regions_step [] (matrix_records data))"
  have "set (getTopRegionsByCAGR rnd data topN) \<subseteq> fst ` set (sort_desc snd ?avgs)"
    unfolding getTopRegionsByCAGR_records using slice0_subset by fastforce
  also have "\<dots> = set (map fst ?avgs)"
    by (simp only: sort_desc_def set_sort set_map)
  finally show ?thesis by (simp only: regions_avg_fst regions_keys_set)
qed

section \<open>Hierarchy resolver and preset builders\<close>

lemma parents_forEach_result:
  "set ks \<subseteq> fst ` set h \<Longrightarrow>
     parents_forEach h ac ks acc =
       Inr (acc @ filter (\<lambda>p. p \<notin> set ac \<and> has_children h p) ks)"
proof (induction ks arbitrary: acc)
  case Nil
  show ?case by simp
next
  case (Cons k ks)
  then obtain ch where ch: "map_of h k = Some ch"
    by (cases "map_of h k") (auto simp: map_of_eq_None_iff)
  have "set ks \<subseteq> fst ` set h" using Cons.prems by simp
  note IH = Cons.IH[OF this]
  show ?case
    by (simp add: ch IH has_children_def)
qed

lemma set_concat_children: "set (concat (map snd h)) = hierarchy_children h"
  by (auto simp: hierarchy_children_def)

lemma has_children_key: "has_children h k \<Longrightarrow> k \<in> fst ` set h"
proof -
  assume "has_children h k"
  then obtain ch where "map_of h k = Some ch"
    by (auto simp: has_children_def split: option.splits)
  then have "(k, ch) \<in> set h" by (rule map_of_SomeD)
  then show ?thesis by force
qed

lemma getFirstLevelSegments_result:
  assumes "dimensions d = Some dm" "segments dm = Some sg" "map_of sg t = Some sd"
  shows "getFirstLevelSegments (Some d) t =
           Inr (sort (filter (\<lambda>p. p \<notin> hierarchy_children (hierarchy_or_empty sd)
                                   \<and> has_children (hierarchy_or_empty sd) p)
                             (map fst (hierarchy_or_empty sd))
                      @ filter (\<lambda>s. s \<notin> hierarchy_children (hierarchy_or_empty sd)
                                     \<and> \<not> hierarchy_property (hierarchy_or_empty sd) s)
                               (items_or_empty sd)))"
proof -
  let ?h = "hierarchy_or_empty sd"
  have "getFirstLevelSegments (Some d) t =
          (case parents_forEach ?h (concat (map snd ?h)) (map fst ?h) [] of
             Inl e \<Rightarrow> Inl e
           | Inr firstLevelSegments \<Rightarrow>
               Inr (sort (standalone_forEach ?h (concat (map snd ?h)) (items_or_empty sd)
                            firstLevelSegments)))"
    unfolding hierarchy_or_empty_def items_or_empty_def
    using assms by (simp add: getFirstLevelSegments_def Let_def)
  moreover have "parents_forEach ?h (concat (map snd ?h)) (map fst ?h) [] =
          Inr ([] @ filter (\<lambda>p. p \<notin> set (concat (map snd ?h)) \<and> has_children ?h p) (map fst ?h))"
    by (rule parents_forEach_result) simp
  ultimately show ?thesis
    by (simp only: sum.case standalone_forEach_def set_concat_children append_Nil)
qed

lemma getFirstLevelSegments_set:
  assumes "dimensions d = Some dm" "segments dm = Some sg" "map_of sg t = Some sd"
  shows "\<exists>out. getFirstLevelSegments (Some d) t = Inr out \<and> sorted out \<and>
           set out = first_level_found (hierarchy_or_empty sd) (items_or_empty sd)"
proof -
  have "\<And>k. has_children (hierarchy_or_empty sd) k \<Longrightarrow> k \<in> set (map fst (hierarchy_or_empty sd))"
    using has_children_key by simp
  then show ?thesis
    unfolding getFirstLevelSegments_result[OF assms]
    by (auto simp: first_level_found_def simp del: set_map)
qed

text \<open>Where no item is named like an inherited property, the segments found are the
  first-level segments of the specification.\<close>

lemma first_level_found_own_names:
  "set its \<inter> set object_prototype_names = {} \<Longrightarrow>
     first_level_found h its = first_level_set h its"
  by (auto simp: first_level_found_def first_level_set_def hierarchy_property_def)

lemma getFirstLevelSegments_returns:
  assumes "dimensions d = Some dm" "segments dm = Some sg"
  shows "\<exists>out. getFirstLevelSegments (Some d) t = Inr out"
proof (cases "map_of sg t")
  case None
  then show ?thesis using assms by (simp add: getFirstLevelSegments_def)
next
  case (Some sd)
  show ?thesis
    unfolding getFirstLevelSegments_result[OF assms Some] by blast
qed

lemma segments_steps_return:
  assumes "dimensions d = Some dm"
  shows "\<exists>t fl. getFirstSegmentType (Some d) = Inr t \<and> first_level_or_empty (Some d) t = Inr fl"
proof (cases "segments dm")
  case None
  then show ?thesis using assms
    by (simp add: getFirstSegmentType_def first_level_or_empty_def)
next
  case (Some sg)
  show ?thesis
  proof (cases sg)
    case Nil
    then show ?thesis using assms Some
      by (simp add: getFirstSegmentType_def first_level_or_empty_def)
  next
    case (Cons p ps)
    then have t: "getFirstSegmentType (Some d) = Inr (Some (fst p))"
      using assms Some by (simp add: getFirstSegmentType_def)
    obtain out where "getFirstLevelSegments (Some d) (fst p) = Inr out"
      using getFirstLevelSegments_returns[OF assms Some] by blast
    then have "\<exists>fl. first_level_or_empty (Some d) (Some (fst p)) = Inr fl"
      by (simp add: first_level_or_empty_def)
    then show ?thesis using t by blast
  qed
qed

lemma createTopMarketFilters_returns:
  assumes "dimensions d = Some dm"
  shows "\<exists>cfg. createTopMarketFilters rnd (Some d) = Inr cfg
          \<and> fs_geographies cfg = Some (geographies_fallback d 3 (getTopRegionsByMarketValue rnd (Some d) 2024 3))
          \<and> yearRange cfg = Some (2024, 2028)"
proof -
  obtain t fl where "getFirstSegmentType (Some d) = Inr t" "first_level_or_empty (Some d) t = Inr fl"
    using segments_steps_return[OF assms] by blast
  then show ?thesis by (simp add: createTopMarketFilters_def)
qed

lemma createGrowthLeadersFilters_returns:
  assumes "dimensions d = Some dm"
  shows "\<exists>cfg. createGrowthLeadersFilters rnd (Some d) = Inr cfg
          \<and> fs_geographies cfg = Some (geographies_fallback d 2 (getTopRegionsByCAGR rnd (Some d) 2))
          \<and> yearRange cfg = Some (2024, 2032)"
proof -
  obtain t fl where "getFirstSegmentType (Some d) = Inr t" "first_level_or_empty (Some d) t = Inr fl"
    using segments_steps_return[OF assms] by blast
  then show ?thesis by (simp add: createGrowthLeadersFilters_def)
qed

lemma createEmergingMarketsFilters_returns:
  assumes "dimensions d = Some dm"
  shows "\<exists>cfg. createEmergingMarketsFilters rnd (Some d) = Inr cfg
          \<and> fs_geographies cfg = Some (geographies_fallback d 5 (getTopCountriesByCAGR rnd (Some d) 5))
          \<and> yearRange cfg = Some (2024, 2032)"
proof -
  obtain t fl where "getFirstSegmentType (Some d) = Inr t" "first_level_or_empty (Some d) t = Inr fl"
    using segments_steps_return[OF assms] by blast
  then show ?thesis by (simp add: createEmergingMarketsFilters_def)
qed

lemma builder_geographies:
  "createTopMarketFilters rnd (Some d) = Inr cfg \<Longrightarrow>
     fs_geographies cfg = Some (geographies_fallback d 3 (getTopRegionsByMarketValue rnd (Some d) 2024 3))"
  "createGrowthLeadersFilters rnd (Some d) = Inr cfg \<Longrightarrow>
     fs_geographies cfg = Some (geographies_fallback d 2 (getTopRegionsByCAGR rnd (Some d) 2))"
  "createEmergingMarketsFilters rnd (Some d) = Inr cfg \<Longrightarrow>
     fs_geographies cfg = Some (geographies_fallback d 5 (getTopCountriesByCAGR rnd (Some d) 5))"
  by (auto simp: createTopMarketFilters_def createGrowthLeadersFilters_def
      createEmergingMarketsFilters_def split: sum.splits)

lemma builder_none_geographies:
  "createTopMarketFilters rnd None = Inr cfg \<Longrightarrow> fs_geographies cfg = None"
  "createGrowthLeadersFilters rnd None = Inr cfg \<Longrightarrow> fs_geographies cfg = None"
  "createEmergingMarketsFilters rnd None = Inr cfg \<Longrightarrow> fs_geographies cfg = None"
  by (auto simp: createTopMarketFilters_def createGrowthLeadersFilters_def
      createEmergingMarketsFilters_def)

lemma geographies_fallback_no_global:
  "''Global'' \<notin> set topRegions \<Longrightarrow> ''Global'' \<notin> set (geographies_fallback d n topRegions)"
proof -
  assume ng: "''Global'' \<notin> set topRegions"
  have "\<And>ags. ''Global'' \<notin> set (slice0 n (filter (\<lambda>g. g \<noteq> ''Global'') ags))"
    using slice0_subset[of n] by fastforce
  then show ?thesis
    using ng by (simp add: geographies_fallback_def Let_def split: option.splits)
qed

lemma geographies_fallback_first:
  "all_geographies_chain d = Some ags \<Longrightarrow> 0 \<le> n \<Longrightarrow>
     geographies_fallback d n [] = take (nat n) (filter (\<lambda>g. g \<noteq> ''Global'') ags)"
  by (simp add: geographies_fallback_def slice0_def)

lemma all_geographies_chain_dimensions:
  "all_geographies_chain d = Some ags \<Longrightarrow> \<exists>dm. dimensions d = Some dm"
  by (simp add: all_geographies_chain_def split: option.splits)

lemma first_non_global_nonempty:
  "\<exists>g\<in>set ags. g \<noteq> ''Global'' \<Longrightarrow> 0 < k \<Longrightarrow>
     take k (filter (\<lambda>g. g \<noteq> ''Global'') ags) \<noteq> []"
  by (auto simp: take_eq_Nil filter_empty_conv)

lemma createTopMarketFilters_fallback:
  assumes top: "getTopRegionsByMarketValue rnd (Some d) 2024 3 = []"
    and ags: "all_geographies_chain d = Some ags"
  shows "\<exists>cfg. createTopMarketFilters rnd (Some d) = Inr cfg
          \<and> fs_geographies cfg = Some (take 3 (filter (\<lambda>g. g \<noteq> ''Global'') ags))"
proof -
  obtain dm where "dimensions d = Some dm"
    using all_geographies_chain_dimensions[OF ags] by blast
  from createTopMarketFilters_returns[OF this]
  obtain cfg where c: "createTopMarketFilters rnd (Some d) = Inr cfg"
    and g: "fs_geographies cfg = Some (geographies_fallback d 3 (getTopRegionsByMarketValue rnd (Some d) 2024 3))"
    by blast
  have "geographies_fallback d 3 [] = take (nat 3) (filter (\<lambda>g. g \<noteq> ''Global'') ags)"
    by (rule geographies_fallback_first[OF ags]) simp
  then have "fs_geographies cfg = Some (take 3 (filter (\<lambda>g. g \<noteq> ''Global'') ags))"
    unfolding g top by simp
  then show ?thesis using c by blast
qed

lemma createGrowthLeadersFilters_fallback:
  assumes top: "getTopRegionsByCAGR rnd (Some d) 2 = []"
    and ags: "all_geographies_chain d = Some ags"
  shows "\<exists>cfg. createGrowthLeadersFilters rnd (Some d) = Inr cfg
          \<and> fs_geographies cfg = Some (take 2 (filter (\<lambda>g. g \<noteq> ''Global'') ags))"
proof -
  obtain dm where "dimensions d = Some dm"
    using all_geographies_chain_dimensions[OF ags] by blast
  from createGrowthLeadersFilters_returns[OF this]
  obtain cfg where c: "createGrowthLeadersFilters rnd (Some d) = Inr cfg"
    and g: "fs_geographies cfg = Some (geographies_fallback d 2 (getTopRegionsByCAGR rnd (Some d) 2))"
    by blast
  have "geographies_fallback d 2 [] = take (nat 2) (filter (\<lambda>g. g \<noteq> ''Global'') ags)"
    by (rule geographies_fallback_first[OF ags]) simp
  then have "fs_geographies cfg = Some (take 2 (filter (\<lambda>g. g \<noteq> ''Global'') ags))"
    unfolding g top by simp
  then show ?thesis using c by blast
qed

lemma createEmergingMarketsFilters_fallback:
  assumes top: "getTopCountriesByCAGR rnd (Some d) 5 = []"
    and ags: "all_geographies_chain d = Some ags"
  shows "\<exists>cfg. createEmergingMarketsFilters rnd (Some d) = Inr cfg
          \<and> fs_geographies cfg = Some (take 5 (filter (\<lambda>g. g \<noteq> ''Global'') ags))"
proof -
  obtain dm where "dimensions d = Some dm"
    using all_geographies_chain_dimensions[OF ags] by blast
  from createEmergingMarketsFilters_returns[OF this]
  obtain cfg where c: "createEmergingMarketsFilters rnd (Some d) = Inr cfg"
    and g: "fs_geographies cfg = Some (geographies_fallback d 5 (getTopCountriesByCAGR rnd (Some d) 5))"
    by blast
  have "geographies_fallback d 5 [] = take (nat 5) (filter (\<lambda>g. g \<noteq> ''Global'') ags)"
    by (rule geographies_fallback_first[OF ags]) simp
  then have "fs_geographies cfg = Some (take 5 (filter (\<lambda>g. g \<noteq> ''Global'') ags))"
    unfolding g top by simp
  then show ?thesis using c by blast
qed

text \<open>So for a segment type of the dataset whose items are not named like inherited
  properties, the result is sorted and holds exactly the first-level segments of the
  specification; for the items \<open>X\<close>, \<open>Y\<close>, \<open>Z\<close>, \<open>W\<close> and the hierarchy \<open>X \<mapsto> [Y, Z]\<close> it
  is \<open>[W, X]\<close>.\<close>

lemma first_level_segments_own_names:
  assumes "dimensions d = Some dm" "segments dm = Some sg" "map_of sg t = Some sd"
    and "set (items_or_empty sd) \<inter> set object_prototype_names = {}"
  shows "\<exists>out. getFirstLevelSegments (Some d) t = Inr out \<and> sorted out
            \<and> set out = first_level_set (hierarchy_or_empty sd) (items_or_empty sd)"
  using getFirstLevelSegments_set[OF assms(1-3)] first_level_found_own_names[OF assms(4)]
  by simp

lemma first_level_segments_example:
  assumes "dimensions d = Some dm" "segments dm = Some sg" "map_of sg t = Some sd"
    and "items sd = Some [''X'', ''Y'', ''Z'', ''W'']" "hierarchy sd = Some [(''X'', [''Y'', ''Z''])]"
  shows "getFirstLevelSegments (Some d) t = Inr [''W'', ''X'']"
  unfolding getFirstLevelSegments_result[OF assms(1-3)]
  using assms(4,5)
  by (simp add: hierarchy_or_empty_def items_or_empty_def hierarchy_children_def has_children_def
      hierarchy_property_def object_prototype_names_def)

section \<open>Exclusions\<close>

lemma valid_cagr_None_iff:
  "valid_cagr r = None \<longleftrightarrow> cagr r = Undefined \<or> cagr r = Null \<or> cagr r = Val NaN"
  by (simp add: valid_cagr_def split: jsfield.splits jsnum.splits)

lemma cagr_geographies_excluded:
  "(\<And>r. r \<in> set rs \<Longrightarrow> geography r = g \<Longrightarrow> valid_cagr r = None) \<Longrightarrow> g \<notin> cagr_geographies rs"
  by (auto simp: cagr_geographies_def)

lemma cagr_countries_subset:
  "set (getTopCountriesByCAGR rnd data topN) \<subseteq> cagr_geographies (matrix_records data)"
  using cagr_ranking_subset[of rnd data topN]
  by (simp only: getTopRegionsByCAGR_records getTopCountriesByCAGR_records)

lemma rankings_no_global:
  "''Global'' \<notin> set (getTopRegionsByMarketValue rnd data year topN)"
  "''Global'' \<notin> set (getTopRegionsByCAGR rnd data topN)"
  "''Global'' \<notin> set (getTopCountriesByCAGR rnd data topN)"
  using value_ranking_subset[of rnd data year topN] cagr_ranking_subset[of rnd data topN]
    cagr_countries_subset[of rnd data topN]
  by (auto simp: ranked_geographies_def cagr_geographies_def)

lemma builders_no_global:
  assumes "createTopMarketFilters rnd data = Inr cfg \<or> createGrowthLeadersFilters rnd data = Inr cfg
           \<or> createEmergingMarketsFilters rnd data = Inr cfg"
    and gs: "fs_geographies cfg = Some gs"
  shows "''Global'' \<notin> set gs"
proof (cases data)
  case None
  then show ?thesis
    using assms builder_none_geographies[of rnd cfg] by auto
next
  case (Some d)
  have "gs = geographies_fallback d 3 (getTopRegionsByMarketValue rnd (Some d) 2024 3)
        \<or> gs = geographies_fallback d 2 (getTopRegionsByCAGR rnd (Some d) 2)
        \<or> gs = geographies_fallback d 5 (getTopCountriesByCAGR rnd (Some d) 5)"
    using assms(1) gs builder_geographies[of rnd d cfg] unfolding Some by auto
  then show ?thesis
    using geographies_fallback_no_global rankings_no_global by metis
qed

lemma has_year_record_seen: "has_year_record rs year g \<Longrightarrow> g \<in> geography ` set rs"
  by (auto simp: has_year_record_def list_ex_iff)

section \<open>Two ranked geographies\<close>

lemma sort_desc_pair:
  "snd p < snd q \<Longrightarrow> sort_desc snd [p, q] = [q, p] \<and> sort_desc snd [q, p] = [q, p]"
proof -
  assume "snd p < snd q"
  then have "\<not> dneg (snd p) \<le> dneg (snd q)" "dneg (snd q) \<le> dneg (snd p)"
    by (simp_all add: dneg_le)
  then show ?thesis by (simp add: sort_desc_def)
qed

lemma cagr_ranking_pair:
  assumes keys: "cagr_geographies recs = {a, b}" and ab: "a \<noteq> b"
    and lt: "mean rnd (valid_cagrs recs a) < mean rnd (valid_cagrs recs b)"
  shows "map fst (sort_desc snd (map (regions_avg rnd) (foldl regions_step [] recs))) = [b, a]"
proof -
  let ?m = "foldl regions_step [] recs"
  have dist: "distinct (map fst ?m)" by (rule regions_keys_distinct)
  have set: "set (map fst ?m) = {a, b}" using keys by (simp only: regions_keys_set)
  have "length (map fst ?m) = card {a, b}"
    using distinct_card[OF dist] set by simp
  then have "length ?m = 2" using ab by simp
  then obtain p q where m: "?m = [p, q]"
    by (auto simp: length_Suc_conv numeral_2_eq_2)
  have va: "map_of ?m a = Some (valid_cagrs recs a)"
    and vb: "map_of ?m b = Some (valid_cagrs recs b)"
    using keys by (simp_all add: regions_map_of)
  have avg: "map (regions_avg rnd) ?m = [(fst p, mean rnd (snd p)), (fst q, mean rnd (snd q))]"
    unfolding m
    using regions_avg_mean[of rnd "fst p" "snd p"] regions_avg_mean[of rnd "fst q" "snd q"]
    by simp
  have "fst p = a \<and> fst q = b \<or> fst p = b \<and> fst q = a"
    using set dist ab unfolding m by auto
  then show ?thesis
  proof
    assume pq: "fst p = a \<and> fst q = b"
    then have "snd p = valid_cagrs recs a" "snd q = valid_cagrs recs b"
      using va vb ab unfolding m by (auto split: if_splits)
    then show ?thesis
      unfolding avg
      using pq lt sort_desc_pair[of "(a, mean rnd (snd p))" "(b, mean rnd (snd q))"]
      by simp
  next
    assume pq: "fst p = b \<and> fst q = a"
    then have "snd p = valid_cagrs recs b" "snd q = valid_cagrs recs a"
      using va vb ab unfolding m by (auto split: if_splits)
    then show ?thesis
      unfolding avg
      using pq lt sort_desc_pair[of "(a, mean rnd (snd q))" "(b, mean rnd (snd p))"]
      by simp
  qed
qed

lemma growth_scenario_keys:
  assumes "geography ` set recs \<subseteq> {''Global'', ''A'', ''B'', ''C''}"
    and "valid_cagrs recs ''A'' \<noteq> []" "valid_cagrs recs ''B'' \<noteq> []" "valid_cagrs recs ''C'' = []"
  shows "cagr_geographies recs = {''A'', ''B''}"
proof
  show "cagr_geographies recs \<subseteq> {''A'', ''B''}"
  proof
    fix g assume g: "g \<in> cagr_geographies recs"
    then have "g \<in> geography ` set recs"
      by (auto simp: cagr_geographies_def)
    moreover have "g \<noteq> ''Global''" "valid_cagrs recs g \<noteq> []"
      using g by (simp_all add: cagr_geographies_iff)
    ultimately have "g \<in> geography ` set recs" "g \<noteq> ''Global''" "valid_cagrs recs g \<noteq> []"
      by blast+
    then show "g \<in> {''A'', ''B''}" using assms(1,4) by auto
  qed
  show "{''A'', ''B''} \<subseteq> cagr_geographies recs"
    using assms(2,3) by (simp add: cagr_geographies_iff)
qed

section \<open>The example datasets, evaluated\<close>

text \<open>The sums and quotients of the examples are doubles, so rounding returns them.\<close>

lemma binade_numeral:
  "binade (numeral k) a e =
     (if 2 \<le> a then binade (pred_numeral k) (a / 2) (e + 1)
      else if a < 1 \<and> - 1022 < e then binade (pred_numeral k) (a * 2) (e - 1)
      else e)"
  by (simp add: numeral_eq_Suc)

lemma ieee_round_small:
  "ieee_round 0 = Fin 0" "ieee_round 1 = Fin 1" "ieee_round 4 = Fin 4" "ieee_round 5 = Fin 5"
  "ieee_round 9 = Fin 9" "ieee_round 10 = Fin 10"
  by (simp_all add: ieee_round_def binade_numeral round_half_even_def Let_def)

lemma example_matrix_records: "matrix_records (Some example_data) = example_records"
  by (simp add: matrix_records_def example_data_def)

lemma example_valid_cagrs:
  "valid_cagrs example_records ''A'' = [4, 6]"
  "valid_cagrs example_records ''B'' = [9]"
  "valid_cagrs example_records ''C'' = []"
  by (simp_all add: valid_cagrs_def valid_cagr_def example_records_def)

lemma example_means:
  "mean ieee_round [4, 6] = Fin 5"
  "mean ieee_round [9] = Fin 9"
  by (simp_all add: mean_def dadd_def ddiv_def ieee_round_small)

lemma example_ranked_geographies:
  "ranked_geographies example_records = {''A'', ''B'', ''C''}"
  by (auto simp: ranked_geographies_def example_records_def)


lemma example_totals:
  "foldl (totals_step ieee_round 2024) [] example_records
     = [(''A'', Fin 5), (''C'', Fin 1), (''B'', Fin 5)]"
  by (simp add: example_records_def totals_step_def year_value_def dadd_def ieee_round_small)

lemma example_value_ranking:
  "getTopRegionsByMarketValue ieee_round (Some example_data) 2024 3 = [''A'', ''B'', ''C'']"
  "getTopRegionsByMarketValue ieee_round (Some example_data) 2024 2 = [''A'', ''B'']"
  by (simp_all add: getTopRegionsByMarketValue_records example_matrix_records example_totals
      sort_desc_def dneg_def less_eq_double_def slice0_def)

lemma example_segment_lookup:
  "dimensions example_data = Some (example_dimensions [''Global'', ''A'', ''B'', ''C''])"
  "segments (example_dimensions ags) = Some [(''By Type'', example_segment_dimension)]"
  "map_of [(''By Type'', example_segment_dimension)] ''By Type'' = Some example_segment_dimension"
  by (simp_all add: example_data_def example_dimensions_def)

lemma example_first_level_set:
  "first_level_set (hierarchy_or_empty example_segment_dimension)
     (items_or_empty example_segment_dimension) = {''W'', ''X''}"
  by (auto simp: first_level_set_def hierarchy_or_empty_def items_or_empty_def
      example_segment_dimension_def has_children_def hierarchy_children_def split: if_splits)

lemma example_first_level_segments:
  "getFirstLevelSegments (Some example_data) ''By Type'' = Inr [''W'', ''X'']"
  by (simp add: getFirstLevelSegments_def standalone_forEach_def hierarchy_property_def
      object_prototype_names_def example_data_def example_dimensions_def
      example_segment_dimension_def)

lemma example_top_market:
  "createTopMarketFilters ieee_round (Some example_data) =
     Inr \<lparr>viewMode = Some ''geography-mode'', fs_geographies = Some [''A'', ''B'', ''C''],
          fs_segments = Some [''W'', ''X''], segmentType = Some ''By Type'',
          yearRange = Some (2024, 2028), dataType = Some ''value''\<rparr>"
proof -
  have "getFirstSegmentType (Some example_data) = Inr (Some ''By Type'')"
    by (simp add: getFirstSegmentType_def example_data_def example_dimensions_def)
  then show ?thesis
    by (simp add: createTopMarketFilters_def example_value_ranking first_level_or_empty_def
        example_first_level_segments geographies_fallback_def segments_fallback_def
        segment_type_or_default_def)
qed

lemma fallback_data_chain:
  "all_geographies_chain fallback_data = Some [''Global'', ''A'', ''B'', ''C'', ''D'']"
  by (simp add: all_geographies_chain_def fallback_data_def example_dimensions_def)

lemma fallback_data_records: "matrix_records (Some fallback_data) = []"
  by (simp add: matrix_records_def fallback_data_def)

text \<open>A record without a value for the year is still ranked, with total 0.\<close>

lemma other_year_ranked:
  "getTopRegionsByMarketValue ieee_round (Some other_year_data) 2024 3 = [''D'']"
  by (simp add: getTopRegionsByMarketValue_def other_year_data_def totals_step_def
      year_value_def dadd_def ieee_round_small sort_desc_def slice0_def)

text \<open>The ranking follows the rounded sums: \<open>0.1 + 0.2 + 0.3\<close> rounds to the double
  above the one \<open>0.3 + 0.2 + 0.1\<close> rounds to, so \<open>A\<close> comes first, although the exact
  sums are equal and \<open>B\<close> has the first record.\<close>

lemma rounding_steps:
  "ieee_round tenth = Fin tenth"
  "ieee_round three_tenths = Fin three_tenths"
  "ieee_round (tenth + fifth) = Fin (1351079888211149 / 4503599627370496)"
  "ieee_round (three_tenths + fifth) = Fin (1 / 2)"
  "ieee_round (1351079888211149 / 4503599627370496 + three_tenths)
     = Fin (1351079888211149 / 2251799813685248)"
  "ieee_round (1 / 2 + tenth) = Fin (5404319552844595 / 9007199254740992)"
  by (simp_all add: tenth_def fifth_def three_tenths_def ieee_round_def binade_numeral
      round_half_even_def Let_def)

lemma rounding_totals:
  "foldl (totals_step ieee_round 2024) [] rounding_records
     = [(''B'', Fin (5404319552844595 / 9007199254740992)),
        (''A'', Fin (1351079888211149 / 2251799813685248))]"
proof -
  have nz: "tenth \<noteq> 0" "three_tenths \<noteq> 0"
    by (simp_all add: tenth_def three_tenths_def)
  show ?thesis
    by (simp add: rounding_records_def totals_step_def year_value_def dadd_def rounding_steps nz)
qed

lemma rounding_ranking:
  "getTopRegionsByMarketValue ieee_round (Some rounding_data) 2024 3 = [''A'', ''B'']
   \<and> tenth + fifth + three_tenths = three_tenths + fifth + tenth"
proof -
  have "matrix_records (Some rounding_data) = rounding_records"
    by (simp add: matrix_records_def rounding_data_def)
  then show ?thesis
    by (simp add: getTopRegionsByMarketValue_records rounding_totals sort_desc_def dneg_def
        less_eq_double_def slice0_def)
qed

section \<open>The claims\<close>

text \<open>
  \<^bold>\<open>C1\<close> (the claim: every engine function returns a value and never throws, also on
  shapes where \<^verbatim>\<open>dimensions.segments\<close> is absent). The source does not do that:
  \<^verbatim>\<open>getFirstLevelSegments\<close> reads \<^verbatim>\<open>data.dimensions.segments[segmentType]\<close> with no
  guard, so a dataset without \<^verbatim>\<open>dimensions.segments\<close> raises a TypeError, although
  \<^verbatim>\<open>getFirstSegmentType\<close> guards the very same field; and a dataset without
  \<^verbatim>\<open>dimensions\<close> makes \<^verbatim>\<open>getFirstSegmentType\<close>, \<^verbatim>\<open>getFirstLevelSegments\<close> and the
  three builders raise, although the builders go on to read \<^verbatim>\<open>data.dimensions?.\<close>
  with optional chaining. The theorem evaluates the functions on the two shapes.
\<close>

theorem missing_shape_raises:
  "getFirstLevelSegments (Some no_segments_data) ''By Type'' = Inl TypeError
   \<and> getFirstSegmentType (Some no_segments_data) = Inr None
   \<and> getFirstSegmentType (Some no_dimensions_data) = Inl TypeError
   \<and> getFirstLevelSegments (Some no_dimensions_data) ''By Type'' = Inl TypeError
   \<and> createTopMarketFilters rnd (Some no_dimensions_data) = Inl TypeError
   \<and> createGrowthLeadersFilters rnd (Some no_dimensions_data) = Inl TypeError
   \<and> createEmergingMarketsFilters rnd (Some no_dimensions_data) = Inl TypeError"
  by (simp add: getFirstLevelSegments_def getFirstSegmentType_def createTopMarketFilters_def
      createGrowthLeadersFilters_def createEmergingMarketsFilters_def
      no_segments_data_def no_dimensions_data_def)

text \<open>
  \<^bold>\<open>C2\<close>. For every dataset, year and count, none of the three ranking functions
  returns \<open>Global\<close>, and whenever a preset builder returns a configuration with a
  geography list (ranked or fallback), \<open>Global\<close> is not in that list.
\<close>

theorem global_never_returned:
  "''Global'' \<notin> set (getTopRegionsByMarketValue rnd data year topN)
   \<and> ''Global'' \<notin> set (getTopRegionsByCAGR rnd data topN)
   \<and> ''Global'' \<notin> set (getTopCountriesByCAGR rnd data topN)
   \<and> (\<forall>cfg gs. (createTopMarketFilters rnd data = Inr cfg
                  \<or> createGrowthLeadersFilters rnd data = Inr cfg
                  \<or> createEmergingMarketsFilters rnd data = Inr cfg)
                \<and> fs_geographies cfg = Some gs \<longrightarrow> ''Global'' \<notin> set gs)"
  using rankings_no_global builders_no_global[of rnd data] by blast

theorem global_never_returned_witness:
  "''Global'' \<in> geography ` set (matrix_records (Some example_data))
   \<and> createTopMarketFilters ieee_round (Some example_data) =
       Inr \<lparr>viewMode = Some ''geography-mode'', fs_geographies = Some [''A'', ''B'', ''C''],
            fs_segments = Some [''W'', ''X''], segmentType = Some ''By Type'',
            yearRange = Some (2024, 2028), dataType = Some ''value''\<rparr>
   \<and> ''Global'' \<notin> set [''A'', ''B'', ''C'']
   \<and> ''Global'' \<notin> set (getTopRegionsByMarketValue ieee_round (Some example_data) 2024 3)
   \<and> ''Global'' \<notin> set (getTopRegionsByCAGR ieee_round (Some example_data) 3)
   \<and> ''Global'' \<notin> set (getTopCountriesByCAGR ieee_round (Some example_data) 3)"
proof -
  let ?cfg = "\<lparr>viewMode = Some ''geography-mode'', fs_geographies = Some [''A'', ''B'', ''C''],
            fs_segments = Some [''W'', ''X''], segmentType = Some ''By Type'',
            yearRange = Some (2024, 2028), dataType = Some ''value''\<rparr>"
  have g: "''Global'' \<in> geography ` set (matrix_records (Some example_data))"
    by (simp add: example_matrix_records example_records_def)
  have f: "fs_geographies ?cfg = Some [''A'', ''B'', ''C'']" by simp
  note t = global_never_returned[of ieee_round "Some example_data" 2024 3]
  have "''Global'' \<notin> set [''A'', ''B'', ''C'']"
    using t example_top_market f by blast
  then show ?thesis
    using g example_top_market t by blast
qed

text \<open>
  \<^bold>\<open>C3\<close> (the claim: with a ranking that is empty and a non-empty \<^verbatim>\<open>all_geographies\<close>,
  the builder never returns an empty geography list). It fails where \<open>Global\<close> is the only
  listed geography: the fallback filters \<open>Global\<close> out and nothing is left.
\<close>

theorem fallback_global_only_counterexample:
  "getTopRegionsByMarketValue ieee_round (Some global_only_data) 2024 3 = []
   \<and> all_geographies_chain global_only_data = Some [''Global'']
   \<and> createTopMarketFilters ieee_round (Some global_only_data) =
       Inr \<lparr>viewMode = Some ''geography-mode'', fs_geographies = Some [], 
            fs_segments = Some [''W'', ''X''], segmentType = Some ''By Type'',
            yearRange = Some (2024, 2028), dataType = Some ''value''\<rparr>"
  by (simp add: getTopRegionsByMarketValue_def all_geographies_chain_def createTopMarketFilters_def
      global_only_data_def example_dimensions_def example_segment_dimension_def
      getFirstSegmentType_def first_level_or_empty_def getFirstLevelSegments_def
      standalone_forEach_def hierarchy_property_def object_prototype_names_def
      geographies_fallback_def segments_fallback_def segment_type_or_default_def slice0_def)

text \<open>
  \<^bold>\<open>C3\<close>, as amended. For a dataset with
  \<^verbatim>\<open>all_geographies = ["Global","A","B","C","D"]\<close> and no value record (an empty or
  absent matrix), \<^verbatim>\<open>getTopRegionsByMarketValue\<close> returns the empty list and
  \<^verbatim>\<open>createTopMarketFilters\<close> returns the geographies \<open>A\<close>, \<open>B\<close>, \<open>C\<close>. In general,
  whenever the ranking is empty and \<^verbatim>\<open>all_geographies\<close> is present, each builder returns
  the first \<open>N\<close> entries of \<^verbatim>\<open>all_geographies\<close> other than \<open>Global\<close>, in listed order
  (\<open>N\<close> is 3, 2 and 5), and that list is not empty when some listed geography is not
  \<open>Global\<close>.
\<close>

theorem fallback_first_non_global:
  "(matrix_records (Some d) = [] \<and>
      all_geographies_chain d = Some [''Global'', ''A'', ''B'', ''C'', ''D''] \<longrightarrow>
        getTopRegionsByMarketValue rnd (Some d) 2024 3 = []
        \<and> (\<exists>cfg. createTopMarketFilters rnd (Some d) = Inr cfg
                  \<and> fs_geographies cfg = Some [''A'', ''B'', ''C'']))
   \<and> (getTopRegionsByMarketValue rnd (Some d) 2024 3 = [] \<and> all_geographies_chain d = Some ags \<longrightarrow>
        (\<exists>cfg. createTopMarketFilters rnd (Some d) = Inr cfg
               \<and> fs_geographies cfg = Some (take 3 (filter (\<lambda>g. g \<noteq> ''Global'') ags))
               \<and> ((\<exists>g\<in>set ags. g \<noteq> ''Global'') \<longrightarrow> fs_geographies cfg \<noteq> Some [])))
   \<and> (getTopRegionsByCAGR rnd (Some d) 2 = [] \<and> all_geographies_chain d = Some ags \<longrightarrow>
        (\<exists>cfg. createGrowthLeadersFilters rnd (Some d) = Inr cfg
               \<and> fs_geographies cfg = Some (take 2 (filter (\<lambda>g. g \<noteq> ''Global'') ags))
               \<and> ((\<exists>g\<in>set ags. g \<noteq> ''Global'') \<longrightarrow> fs_geographies cfg \<noteq> Some [])))
   \<and> (getTopCountriesByCAGR rnd (Some d) 5 = [] \<and> all_geographies_chain d = Some ags \<longrightarrow>
        (\<exists>cfg. createEmergingMarketsFilters rnd (Some d) = Inr cfg
               \<and> fs_geographies cfg = Some (take 5 (filter (\<lambda>g. g \<noteq> ''Global'') ags))
               \<and> ((\<exists>g\<in>set ags. g \<noteq> ''Global'') \<longrightarrow> fs_geographies cfg \<noteq> Some [])))"
  (is "?scenario \<and> ?market \<and> ?growth \<and> ?emerging")
proof -
  let ?F = "filter (\<lambda>g. g \<noteq> ''Global'') ags"
  have ne: "\<And>k. 0 < k \<Longrightarrow> (\<exists>g\<in>set ags. g \<noteq> ''Global'') \<longrightarrow> Some (take k ?F) \<noteq> Some []"
    using first_non_global_nonempty[of ags] by simp
  have ?scenario
  proof (intro impI, elim conjE)
    assume recs: "matrix_records (Some d) = []"
      and ags5: "all_geographies_chain d = Some [''Global'', ''A'', ''B'', ''C'', ''D'']"
    have top: "getTopRegionsByMarketValue rnd (Some d) 2024 3 = []"
      by (simp add: getTopRegionsByMarketValue_records recs slice0_empty sort_desc_empty)
    obtain cfg where "createTopMarketFilters rnd (Some d) = Inr cfg"
      and "fs_geographies cfg =
             Some (take 3 (filter (\<lambda>g. g \<noteq> ''Global'') [''Global'', ''A'', ''B'', ''C'', ''D'']))"
      using createTopMarketFilters_fallback[OF top ags5] by blast
    then have "createTopMarketFilters rnd (Some d) = Inr cfg \<and> fs_geographies cfg = Some [''A'', ''B'', ''C'']"
      by simp
    then show "getTopRegionsByMarketValue rnd (Some d) 2024 3 = []
        \<and> (\<exists>cfg. createTopMarketFilters rnd (Some d) = Inr cfg
                  \<and> fs_geographies cfg = Some [''A'', ''B'', ''C''])"
      using top by blast
  qed
  moreover have ?market
  proof (intro impI, elim conjE)
    assume top: "getTopRegionsByMarketValue rnd (Some d) 2024 3 = []"
      and ags: "all_geographies_chain d = Some ags"
    obtain cfg where c: "createTopMarketFilters rnd (Some d) = Inr cfg"
      and g: "fs_geographies cfg = Some (take 3 ?F)"
      using createTopMarketFilters_fallback[OF top ags] by blast
    have "(\<exists>g\<in>set ags. g \<noteq> ''Global'') \<longrightarrow> fs_geographies cfg \<noteq> Some []"
      unfolding g by (rule ne) simp
    then show "\<exists>cfg. createTopMarketFilters rnd (Some d) = Inr cfg
               \<and> fs_geographies cfg = Some (take 3 ?F)
               \<and> ((\<exists>g\<in>set ags. g \<noteq> ''Global'') \<longrightarrow> fs_geographies cfg \<noteq> Some [])"
      using c g by blast
  qed
  moreover have ?growth
  proof (intro impI, elim conjE)
    assume top: "getTopRegionsByCAGR rnd (Some d) 2 = []"
      and ags: "all_geographies_chain d = Some ags"
    obtain cfg where c: "createGrowthLeadersFilters rnd (Some d) = Inr cfg"
      and g: "fs_geographies cfg = Some (take 2 ?F)"
      using createGrowthLeadersFilters_fallback[OF top ags] by blast
    have "(\<exists>g\<in>set ags. g \<noteq> ''Global'') \<longrightarrow> fs_geographies cfg \<noteq> Some []"
      unfolding g by (rule ne) simp
    then show "\<exists>cfg. createGrowthLeadersFilters rnd (Some d) = Inr cfg
               \<and> fs_geographies cfg = Some (take 2 ?F)
               \<and> ((\<exists>g\<in>set ags. g \<noteq> ''Global'') \<longrightarrow> fs_geographies cfg \<noteq> Some [])"
      using c g by blast
  qed
  moreover have ?emerging
  proof (intro impI, elim conjE)
    assume top: "getTopCountriesByCAGR rnd (Some d) 5 = []"
      and ags: "all_geographies_chain d = Some ags"
    obtain cfg where c: "createEmergingMarketsFilters rnd (Some d) = Inr cfg"
      and g: "fs_geographies cfg = Some (take 5 ?F)"
      using createEmergingMarketsFilters_fallback[OF top ags] by blast
    have "(\<exists>g\<in>set ags. g \<noteq> ''Global'') \<longrightarrow> fs_geographies cfg \<noteq> Some []"
      unfolding g by (rule ne) simp
    then show "\<exists>cfg. createEmergingMarketsFilters rnd (Some d) = Inr cfg
               \<and> fs_geographies cfg = Some (take 5 ?F)
               \<and> ((\<exists>g\<in>set ags. g \<noteq> ''Global'') \<longrightarrow> fs_geographies cfg \<noteq> Some [])"
      using c g by blast
  qed
  ultimately show ?thesis by blast
qed

theorem fallback_first_non_global_witness:
  "matrix_records (Some fallback_data) = []
   \<and> all_geographies_chain fallback_data = Some [''Global'', ''A'', ''B'', ''C'', ''D'']
   \<and> getTopRegionsByMarketValue ieee_round (Some fallback_data) 2024 3 = []
   \<and> (\<exists>cfg. createTopMarketFilters ieee_round (Some fallback_data) = Inr cfg
             \<and> fs_geographies cfg = Some [''A'', ''B'', ''C''])"
  using fallback_first_non_global[where d = fallback_data and rnd = ieee_round
      and ags = "[''Global'', ''A'', ''B'', ''C'', ''D'']"]
    fallback_data_chain fallback_data_records
  by blast

text \<open>
  \<^bold>\<open>C4\<close> (the claim: \<^verbatim>\<open>getFirstLevelSegments\<close> returns exactly the hierarchy keys with
  at least one child that are no child of any parent, together with the items that are
  neither a hierarchy key nor a child, sorted ascending). The source says the same of
  itself (``Also add standalone segments that are neither parents nor children''), but
  its test \<^verbatim>\<open>!hierarchy[segment]\<close> also finds the properties the hierarchy object
  inherits: with the items \<open>constructor\<close>, \<open>W\<close>, \<open>toString\<close> and an empty hierarchy, all
  three items are neither keys nor children, and the result is \<open>[W]\<close> alone.
\<close>

theorem inherited_name_dropped:
  "getFirstLevelSegments (Some inherited_names_data) ''By Type'' = Inr [''W'']
   \<and> first_level_set [] [''constructor'', ''W'', ''toString'']
       = {''constructor'', ''W'', ''toString''}"
proof -
  have "getFirstLevelSegments (Some inherited_names_data) ''By Type'' = Inr [''W'']"
    by (simp add: getFirstLevelSegments_def inherited_names_data_def standalone_forEach_def
        hierarchy_property_def object_prototype_names_def)
  moreover have "first_level_set [] [''constructor'', ''W'', ''toString'']
       = {''constructor'', ''W'', ''toString''}"
    by (auto simp: first_level_set_def has_children_def hierarchy_children_def)
  ultimately show ?thesis by blast
qed



text \<open>
  \<^bold>\<open>C6\<close>. A geography all of whose records have an absent, \<^verbatim>\<open>null\<close> or \<^verbatim>\<open>NaN\<close> CAGR
  is in the result of neither \<^verbatim>\<open>getTopRegionsByCAGR\<close> nor \<^verbatim>\<open>getTopCountriesByCAGR\<close>.
\<close>

theorem cagr_exclusion:
  "\<forall>r\<in>set (matrix_records data).
      geography r = g \<longrightarrow> cagr r = Undefined \<or> cagr r = Null \<or> cagr r = Val NaN \<Longrightarrow>
   g \<notin> set (getTopRegionsByCAGR rnd data topN) \<and> g \<notin> set (getTopCountriesByCAGR rnd data topN)"
proof -
  assume "\<forall>r\<in>set (matrix_records data).
      geography r = g \<longrightarrow> cagr r = Undefined \<or> cagr r = Null \<or> cagr r = Val NaN"
  then have "g \<notin> cagr_geographies (matrix_records data)"
    by (intro cagr_geographies_excluded) (simp add: valid_cagr_None_iff)
  moreover have "set (getTopCountriesByCAGR rnd data topN) = set (getTopRegionsByCAGR rnd data topN)"
    by (simp only: getTopRegionsByCAGR_records getTopCountriesByCAGR_records)
  ultimately show ?thesis
    using cagr_ranking_subset[of rnd data topN] by blast
qed

theorem cagr_exclusion_witness:
  "map cagr (filter (\<lambda>r. geography r = ''C'') (matrix_records (Some example_data))) = [Null]
   \<and> ''C'' \<notin> set (getTopRegionsByCAGR ieee_round (Some example_data) 5)
   \<and> ''C'' \<notin> set (getTopCountriesByCAGR ieee_round (Some example_data) 5)"
proof -
  have h: "\<forall>r\<in>set (matrix_records (Some example_data)).
      geography r = ''C'' \<longrightarrow> cagr r = Undefined \<or> cagr r = Null \<or> cagr r = Val NaN"
    by (simp add: example_matrix_records example_records_def)
  have "map cagr (filter (\<lambda>r. geography r = ''C'') (matrix_records (Some example_data))) = [Null]"
    by (simp add: example_matrix_records example_records_def)
  then show ?thesis
    using cagr_exclusion[OF h, of ieee_round 5] by blast
qed

text \<open>
  \<^bold>\<open>C7\<close>. For \<open>topN \<ge> 0\<close> the result of \<^verbatim>\<open>getTopRegionsByMarketValue\<close> has at most
  \<open>topN\<close> elements, and exactly the minimum of \<open>topN\<close> and the number of distinct
  geographies other than \<open>Global\<close> among the records; when the records name listed
  geographies only and every listed geography other than \<open>Global\<close> has a record for the
  year, that number is the number of listed geographies other than \<open>Global\<close>.
\<close>

theorem value_ranking_truncation:
  "0 \<le> topN \<Longrightarrow>
     length (getTopRegionsByMarketValue rnd data year topN) \<le> nat topN
     \<and> length (getTopRegionsByMarketValue rnd data year topN)
         = min (nat topN) (card (ranked_geographies (matrix_records data)))
     \<and> (\<forall>d ags. data = Some d \<and> all_geographies_chain d = Some ags
                 \<and> geography ` set (matrix_records data) \<subseteq> set ags
                 \<and> (\<forall>g\<in>set ags. g \<noteq> ''Global'' \<longrightarrow> has_year_record (matrix_records data) year g)
           \<longrightarrow> length (getTopRegionsByMarketValue rnd data year topN)
                 = min (nat topN) (card (set ags - {''Global''})))"
proof -
  assume n: "0 \<le> topN"
  have len: "length (getTopRegionsByMarketValue rnd data year topN)
         = min (nat topN) (card (ranked_geographies (matrix_records data)))"
    using n by (rule value_ranking_length)
  have "\<And>ags. geography ` set (matrix_records data) \<subseteq> set ags \<Longrightarrow>
          (\<forall>g\<in>set ags. g \<noteq> ''Global'' \<longrightarrow> has_year_record (matrix_records data) year g) \<Longrightarrow>
          ranked_geographies (matrix_records data) = set ags - {''Global''}"
    using has_year_record_seen[of "matrix_records data" year]
    by (auto simp: ranked_geographies_def)
  then show ?thesis using len by auto
qed

theorem value_ranking_truncation_witness:
  "(0::int) \<le> 2
   \<and> all_geographies_chain example_data = Some [''Global'', ''A'', ''B'', ''C'']
   \<and> map geography (matrix_records (Some example_data)) = [''Global'', ''A'', ''C'', ''B'', ''A'']
   \<and> has_year_record (matrix_records (Some example_data)) 2024 ''A''
   \<and> has_year_record (matrix_records (Some example_data)) 2024 ''B''
   \<and> has_year_record (matrix_records (Some example_data)) 2024 ''C''
   \<and> card (ranked_geographies (matrix_records (Some example_data))) = 3
   \<and> card (set [''Global'', ''A'', ''B'', ''C''] - {''Global''}) = 3
   \<and> length (getTopRegionsByMarketValue ieee_round (Some example_data) 2024 2) = 2"
proof -
  have h: "(0::int) \<le> 2" by simp
  have c: "all_geographies_chain example_data = Some [''Global'', ''A'', ''B'', ''C'']"
    by (simp add: all_geographies_chain_def example_data_def example_dimensions_def)
  have m: "map geography (matrix_records (Some example_data)) = [''Global'', ''A'', ''C'', ''B'', ''A'']"
    by (simp add: example_matrix_records example_records_def)
  have s: "geography ` set (matrix_records (Some example_data)) \<subseteq> set [''Global'', ''A'', ''B'', ''C'']"
    by (simp add: example_matrix_records example_records_def)
  have y: "has_year_record (matrix_records (Some example_data)) 2024 ''A''"
    "has_year_record (matrix_records (Some example_data)) 2024 ''B''"
    "has_year_record (matrix_records (Some example_data)) 2024 ''C''"
    by (simp_all add: example_matrix_records example_records_def has_year_record_def)
  then have y': "\<forall>g\<in>set [''Global'', ''A'', ''B'', ''C''].
         g \<noteq> ''Global'' \<longrightarrow> has_year_record (matrix_records (Some example_data)) 2024 g"
    by simp
  have k: "card (ranked_geographies (matrix_records (Some example_data))) = 3"
    by (simp add: example_matrix_records example_ranked_geographies)
  have k': "card (set [''Global'', ''A'', ''B'', ''C''] - {''Global''}) = 3"
    by simp
  note t = value_ranking_truncation[OF h, of ieee_round "Some example_data" 2024]
  have "length (getTopRegionsByMarketValue ieee_round (Some example_data) 2024 2)
          = min (nat 2) (card (set [''Global'', ''A'', ''B'', ''C''] - {''Global''}))"
    using t c s y' by blast
  then have "length (getTopRegionsByMarketValue ieee_round (Some example_data) 2024 2) = 2"
    unfolding k' by simp
  then show ?thesis using h c m y k k' by blast
qed

text \<open>
  \<^bold>\<open>C8\<close>. For a dataset whose records name, besides \<open>Global\<close>, only \<open>A\<close>, \<open>B\<close> and \<open>C\<close>,
  where the valid CAGR values of \<open>A\<close> average 5 and those of \<open>B\<close> average 9 (the mean as
  a program computes it: the sum from left to right and the division by the count, in
  double arithmetic) and \<open>C\<close> has no valid CAGR, \<^verbatim>\<open>getTopRegionsByCAGR\<close> with count 2
  returns \<open>[B, A]\<close>, and (its \<^verbatim>\<open>dimensions\<close> being present)
  \<^verbatim>\<open>createGrowthLeadersFilters\<close> returns these geographies with the year range 2024 to
  2032. This holds whatever the rounding is.
\<close>

theorem growth_leaders_scenario:
  "geography ` set (matrix_records (Some d)) \<subseteq> {''Global'', ''A'', ''B'', ''C''} \<Longrightarrow>
   valid_cagrs (matrix_records (Some d)) ''A'' \<noteq> [] \<Longrightarrow>
   mean rnd (valid_cagrs (matrix_records (Some d)) ''A'') = Fin 5 \<Longrightarrow>
   valid_cagrs (matrix_records (Some d)) ''B'' \<noteq> [] \<Longrightarrow>
   mean rnd (valid_cagrs (matrix_records (Some d)) ''B'') = Fin 9 \<Longrightarrow>
   valid_cagrs (matrix_records (Some d)) ''C'' = [] \<Longrightarrow>
   getTopRegionsByCAGR rnd (Some d) 2 = [''B'', ''A'']
   \<and> (dimensions d \<noteq> None \<longrightarrow>
        (\<exists>cfg. createGrowthLeadersFilters rnd (Some d) = Inr cfg
               \<and> fs_geographies cfg = Some [''B'', ''A'']
               \<and> yearRange cfg = Some (2024, 2032)))"
proof -
  let ?recs = "matrix_records (Some d)"
  assume geos: "geography ` set ?recs \<subseteq> {''Global'', ''A'', ''B'', ''C''}"
    and a: "valid_cagrs ?recs ''A'' \<noteq> []" and ma: "mean rnd (valid_cagrs ?recs ''A'') = Fin 5"
    and b: "valid_cagrs ?recs ''B'' \<noteq> []" and mb: "mean rnd (valid_cagrs ?recs ''B'') = Fin 9"
    and c: "valid_cagrs ?recs ''C'' = []"
  have keys: "cagr_geographies ?recs = {''A'', ''B''}"
    using geos a b c by (rule growth_scenario_keys)
  have lt: "mean rnd (valid_cagrs ?recs ''A'') < mean rnd (valid_cagrs ?recs ''B'')"
    unfolding ma mb by (simp add: less_double_def less_eq_double_def)
  have "map fst (sort_desc snd (map (regions_avg rnd) (foldl regions_step [] ?recs))) = [''B'', ''A'']"
    by (rule cagr_ranking_pair[OF keys _ lt]) simp
  then have "map fst (slice0 2 (sort_desc snd (map (regions_avg rnd) (foldl regions_step [] ?recs)))) = [''B'', ''A'']"
    by (simp add: slice0_def take_map[symmetric] del: take_map)
  then have top: "getTopRegionsByCAGR rnd (Some d) 2 = [''B'', ''A'']"
    by (simp only: getTopRegionsByCAGR_records)
  have "dimensions d \<noteq> None \<longrightarrow>
        (\<exists>cfg. createGrowthLeadersFilters rnd (Some d) = Inr cfg
               \<and> fs_geographies cfg = Some [''B'', ''A'']
               \<and> yearRange cfg = Some (2024, 2032))"
  proof
    assume "dimensions d \<noteq> None"
    then obtain dm where "dimensions d = Some dm" by blast
    from createGrowthLeadersFilters_returns[OF this]
    obtain cfg where "createGrowthLeadersFilters rnd (Some d) = Inr cfg"
      and "fs_geographies cfg = Some (geographies_fallback d 2 (getTopRegionsByCAGR rnd (Some d) 2))"
      and "yearRange cfg = Some (2024, 2032)"
      by blast
    moreover have "geographies_fallback d 2 [''B'', ''A''] = [''B'', ''A'']"
      by (simp add: geographies_fallback_def)
    ultimately show "\<exists>cfg. createGrowthLeadersFilters rnd (Some d) = Inr cfg
               \<and> fs_geographies cfg = Some [''B'', ''A'']
               \<and> yearRange cfg = Some (2024, 2032)"
      unfolding top by simp
  qed
  with top show ?thesis by blast
qed

theorem growth_leaders_scenario_witness:
  "map geography (matrix_records (Some example_data)) = [''Global'', ''A'', ''C'', ''B'', ''A'']
   \<and> valid_cagrs (matrix_records (Some example_data)) ''A'' = [4, 6]
   \<and> mean ieee_round (valid_cagrs (matrix_records (Some example_data)) ''A'') = Fin 5
   \<and> valid_cagrs (matrix_records (Some example_data)) ''B'' = [9]
   \<and> mean ieee_round (valid_cagrs (matrix_records (Some example_data)) ''B'') = Fin 9
   \<and> valid_cagrs (matrix_records (Some example_data)) ''C'' = []
   \<and> dimensions example_data \<noteq> None
   \<and> getTopRegionsByCAGR ieee_round (Some example_data) 2 = [''B'', ''A'']
   \<and> (\<exists>cfg. createGrowthLeadersFilters ieee_round (Some example_data) = Inr cfg
             \<and> fs_geographies cfg = Some [''B'', ''A'']
             \<and> yearRange cfg = Some (2024, 2032))"
proof -
  have h1: "geography ` set (matrix_records (Some example_data)) \<subseteq> {''Global'', ''A'', ''B'', ''C''}"
    by (simp add: example_matrix_records example_records_def)
  have h2: "valid_cagrs (matrix_records (Some example_data)) ''A'' \<noteq> []"
    and h3: "mean ieee_round (valid_cagrs (matrix_records (Some example_data)) ''A'') = Fin 5"
    and h4: "valid_cagrs (matrix_records (Some example_data)) ''B'' \<noteq> []"
    and h5: "mean ieee_round (valid_cagrs (matrix_records (Some example_data)) ''B'') = Fin 9"
    and h6: "valid_cagrs (matrix_records (Some example_data)) ''C'' = []"
    by (simp_all add: example_matrix_records example_valid_cagrs example_means)
  have h7: "dimensions example_data \<noteq> None"
    by (simp add: example_data_def)
  have m: "map geography (matrix_records (Some example_data)) = [''Global'', ''A'', ''C'', ''B'', ''A'']"
    by (simp add: example_matrix_records example_records_def)
  show ?thesis
    using growth_leaders_scenario[OF h1 h2 h3 h4 h5 h6] m h3 h5 h7
    by (simp add: example_matrix_records example_valid_cagrs)
qed

text \<open>
  \<^bold>\<open>C9\<close>. Without a dataset, \<^verbatim>\<open>createTopMarketFilters\<close> returns the view mode
  \<open>geography-mode\<close>, the year range 2024 to 2028 and the data type \<open>value\<close> and no other
  field; \<^verbatim>\<open>createGrowthLeadersFilters\<close> and \<^verbatim>\<open>createEmergingMarketsFilters\<close> return the
  same with the year range 2024 to 2032.
\<close>

theorem builders_without_dataset:
  "createTopMarketFilters rnd None =
     Inr \<lparr>viewMode = Some ''geography-mode'', fs_geographies = None, fs_segments = None,
          segmentType = None, yearRange = Some (2024, 2028), dataType = Some ''value''\<rparr>
   \<and> createGrowthLeadersFilters rnd None =
     Inr \<lparr>viewMode = Some ''geography-mode'', fs_geographies = None, fs_segments = None,
          segmentType = None, yearRange = Some (2024, 2032), dataType = Some ''value''\<rparr>
   \<and> createEmergingMarketsFilters rnd None =
     Inr \<lparr>viewMode = Some ''geography-mode'', fs_geographies = None, fs_segments = None,
          segmentType = None, yearRange = Some (2024, 2032), dataType = Some ''value''\<rparr>"
  by (simp add: createTopMarketFilters_def createGrowthLeadersFilters_def
      createEmergingMarketsFilters_def)

text \<open>
  \<^bold>\<open>C10\<close>. For every dataset and count, \<^verbatim>\<open>getTopRegionsByCAGR\<close> and
  \<^verbatim>\<open>getTopCountriesByCAGR\<close> return the same list.
\<close>

theorem cagr_rankings_agree:
  "getTopRegionsByCAGR rnd data topN = getTopCountriesByCAGR rnd data topN"
  by (simp only: getTopRegionsByCAGR_records getTopCountriesByCAGR_records)

end
